theory Spec2Isabelle
  imports Complex_Main "HOL-Library.Multiset"
begin

section \<open>Values\<close>

text \<open>
  The schema declares every quantity as \<^verbatim>\<open>decimal(10, 2)\<close>. Such a value is held here as
  its number of hundredths, an integer, and added exactly, as the database adds numerics.
  The driver hands a numeric to the server as text with two places (\<open>pg_numeric_text\<close>);
  \<^verbatim>\<open>parseFloat\<close> of that text is the JavaScript number with the same value, which
  \<open>number_toString\<close> prints as JavaScript does (no trailing zeros). A timestamp is a
  clock reading; every operation that calls \<^verbatim>\<open>new Date()\<close> takes the reading as its
  argument \<open>now\<close>.
\<close>

type_synonym decimal = int
type_synonym timestamp = nat

definition digit_char :: "nat \<Rightarrow> char" where
  "digit_char d = ''0123456789'' ! (d mod 10)"

function show_nat :: "nat \<Rightarrow> string" where
  "show_nat n = (if n < 10 then [digit_char n] else show_nat (n div 10) @ [digit_char (n mod 10)])"
  by pat_completeness auto
termination
  by (relation "measure (\<lambda>n. n)") auto

declare show_nat.simps [simp del]

definition pg_numeric_text :: "decimal \<Rightarrow> string" where
  "pg_numeric_text d =
     (let a = nat \<bar>d\<bar> in
      (if d < 0 then ''-'' else []) @ show_nat (a div 100) @ ''.'' @
      [digit_char (a div 10 mod 10), digit_char (a mod 10)])"

definition number_toString :: "decimal \<Rightarrow> string" where
  "number_toString d =
     (let a = nat \<bar>d\<bar>; f = a mod 100 in
      (if d < 0 then ''-'' else []) @ show_nat (a div 100) @
      (if f = 0 then []
       else if f mod 10 = 0 then ''.'' @ [digit_char (f div 10)]
       else ''.'' @ [digit_char (f div 10), digit_char (f mod 10)]))"

text \<open>
  A finite JavaScript number that goes to the database travels as its decimal text, and
  is held here as the rational which that text denotes. \<open>number_of_decimal\<close> is
  \<^verbatim>\<open>parseFloat\<close> of a stored decimal's text. Storing a number in a \<^verbatim>\<open>decimal(10, 2)\<close>
  column rounds it to two places, half away from zero, and is refused when the rounded
  value has more than eight digits before the point.
\<close>

type_synonym number = rat

definition number_of_decimal :: "decimal \<Rightarrow> number" where
  "number_of_decimal h = of_int h / 100"

definition round_half_away :: "rat \<Rightarrow> int" where
  "round_half_away x = (if 0 \<le> x then \<lfloor>x + 1 / 2\<rfloor> else - \<lfloor>- x + 1 / 2\<rfloor>)"

definition in_range :: "decimal \<Rightarrow> bool" where
  "in_range h = (\<bar>h\<bar> < 10 ^ 10)"

datatype db_violation = ForeignKeyViolation string string | NumericFieldOverflow

definition numeric_10_2 :: "number \<Rightarrow> db_violation + decimal" where
  "numeric_10_2 x =
     (let h = round_half_away (x * 100)
      in if in_range h then Inr h else Inl NumericFieldOverflow)"

text \<open>
  What a rejected call throws: an \<^verbatim>\<open>Error\<close> with its message, the driver's error for a
  statement that the database refused (an \<^verbatim>\<open>Error\<close> too, whose message is the
  database's own), or some other value.
\<close>

datatype js_error = Error string | DatabaseError db_violation | NotAnError

definition double_quote :: string where
  "double_quote = [CHR 0x22]"

definition database_message :: "db_violation \<Rightarrow> string" where
  "database_message v =
     (case v of
        ForeignKeyViolation table constraint \<Rightarrow>
          ''insert or update on table '' @ double_quote @ table @ double_quote @
          '' violates foreign key constraint '' @ double_quote @ constraint @ double_quote
      | NumericFieldOverflow \<Rightarrow> ''numeric field overflow'')"

text \<open>JavaScript's \<^verbatim>\<open>s.substring(a, b)\<close> for \<open>a \<le> b\<close>, and \<^verbatim>\<open>toUpperCase\<close> on ASCII.\<close>

definition substring :: "string \<Rightarrow> nat \<Rightarrow> nat \<Rightarrow> string" where
  "substring s a b = take (b - a) (drop a s)"

definition upper_char :: "char \<Rightarrow> char" where
  "upper_char c =
     (let n = (of_char c :: nat) in if 97 \<le> n \<and> n \<le> 122 then char_of (n - 32) else c)"

definition toUpperCase :: "string \<Rightarrow> string" where
  "toUpperCase s = map upper_char s"

definition is_base36_digit :: "char \<Rightarrow> bool" where
  "is_base36_digit c =
     (let n = (of_char c :: nat) in (48 \<le> n \<and> n \<le> 57) \<or> (97 \<le> n \<and> n \<le> 122))"

definition is_upper_alnum :: "char \<Rightarrow> bool" where
  "is_upper_alnum c =
     (let n = (of_char c :: nat) in (48 \<le> n \<and> n \<le> 57) \<or> (65 \<le> n \<and> n \<le> 90))"

text \<open>\<^verbatim>\<open>a || b\<close> on strings: the empty string is falsy.\<close>

definition js_or :: "string \<Rightarrow> string \<Rightarrow> string" where
  "js_or a b = (if a = [] then b else a)"

section \<open>Tables\<close>

text \<open>
  The rows of \<^verbatim>\<open>shared/schema\<close>. A table is the list of its rows in storage order,
  except \<^verbatim>\<open>fuel_balances\<close>, whose unique key \<^verbatim>\<open>(user_id, fuel_type)\<close> makes it a map
  from that pair, and \<^verbatim>\<open>users\<close>, of which only the ids matter here: the columns
  \<^verbatim>\<open>vehicles.approved_by\<close>, \<^verbatim>\<open>coupons.used_by\<close> and \<^verbatim>\<open>fuel_balances.user_id\<close> reference
  \<^verbatim>\<open>users.id\<close>. Field names carry the table's initial where two tables share a column
  name.
\<close>

datatype vehicle_status = Pending | Approved | Rejected | Active | Suspended

record vehicle =
  v_id :: string
  registrationNumber :: string
  ownerId :: string
  v_fuelType :: string
  v_status :: vehicle_status
  approvedAt :: "timestamp option"
  approvedBy :: "string option"
  rejectionReason :: "string option"

record fuelBalance =
  balance :: decimal
  updatedAt :: timestamp

type_synonym fuelBalances = "string \<times> string \<rightharpoonup> fuelBalance"

record transaction =
  t_id :: string
  t_userId :: string
  transactionType :: string
  t_amount :: decimal
  t_status :: string
  completedAt :: "timestamp option"

record coupon =
  c_id :: string
  code :: string
  c_fuelType :: string
  amount :: decimal
  c_status :: string
  description :: "string option"
  expiryDate :: "timestamp option"
  usedAt :: "timestamp option"
  usedBy :: "string option"
  createdBy :: string
  createdAt :: timestamp

record db =
  users :: "string list"
  vehicles :: "vehicle list"
  fuel_balances :: fuelBalances
  transactions :: "transaction list"
  coupons :: "coupon list"

text \<open>
  \<^verbatim>\<open>const [row] = await db.update(t).set(..).where(p).returning()\<close>: every row that
  satisfies \<open>p\<close> is rewritten, the rewritten rows come back, and the destructuring keeps
  the first of them, or \<^verbatim>\<open>undefined\<close> when there is none.
\<close>

definition update_where :: "('r \<Rightarrow> bool) \<Rightarrow> ('r \<Rightarrow> 'r) \<Rightarrow> 'r list \<Rightarrow> 'r list \<times> 'r option" where
  "update_where p f rows =
     (map (\<lambda>r. if p r then f r else r) rows,
      case filter p rows of [] \<Rightarrow> None | r # _ \<Rightarrow> Some (f r))"

definition select_first :: "('r \<Rightarrow> bool) \<Rightarrow> 'r list \<Rightarrow> 'r option" where
  "select_first p rows = (case filter p rows of [] \<Rightarrow> None | r # _ \<Rightarrow> Some r)"

section \<open>Storage: \<^verbatim>\<open>server/storage.ts\<close>\<close>

text \<open>
  A foreign key is checked for the rows a statement writes: an inserted row, and an
  updated row whose referencing column gets another value than it had. When the new
  value is the id of no user the statement is refused and changes nothing.
\<close>

subsection \<open>Vehicles\<close>

definition approveVehicle :: "string list \<Rightarrow> vehicle list \<Rightarrow> string \<Rightarrow> string \<Rightarrow> timestamp \<Rightarrow> js_error + vehicle list \<times> vehicle option" where
  "approveVehicle us vs vehicleId adminId now =
     (if list_ex (\<lambda>v. v_id v = vehicleId \<and> approvedBy v \<noteq> Some adminId) vs \<and> adminId \<notin> set us
      then Inl (DatabaseError (ForeignKeyViolation ''vehicles'' ''vehicles_approved_by_users_id_fk''))
      else Inr (update_where (\<lambda>v. v_id v = vehicleId)
             (\<lambda>v. v\<lparr>v_status := Approved, approvedAt := Some now, approvedBy := Some adminId\<rparr>) vs))"

text \<open>
  The route hands over \<^verbatim>\<open>req.body.reason\<close>, which is \<^verbatim>\<open>undefined\<close> when the body has
  none; the query builder leaves out a key whose value is \<^verbatim>\<open>undefined\<close>, so the stored
  reason then stays.
\<close>

definition rejectVehicle :: "string list \<Rightarrow> vehicle list \<Rightarrow> string \<Rightarrow> string \<Rightarrow> string option \<Rightarrow> js_error + vehicle list \<times> vehicle option" where
  "rejectVehicle us vs vehicleId adminId reason =
     (if list_ex (\<lambda>v. v_id v = vehicleId \<and> approvedBy v \<noteq> Some adminId) vs \<and> adminId \<notin> set us
      then Inl (DatabaseError (ForeignKeyViolation ''vehicles'' ''vehicles_approved_by_users_id_fk''))
      else Inr (update_where (\<lambda>v. v_id v = vehicleId)
             (\<lambda>v. case reason of
                     None \<Rightarrow> v\<lparr>v_status := Rejected, approvedBy := Some adminId\<rparr>
                   | Some given \<Rightarrow>
                       v\<lparr>v_status := Rejected, approvedBy := Some adminId,
                         rejectionReason := Some given\<rparr>) vs))"

subsection \<open>Fuel balances\<close>

definition getFuelBalance :: "fuelBalances \<Rightarrow> string \<Rightarrow> string \<Rightarrow> fuelBalance option" where
  "getFuelBalance fb userId fuelType = fb (userId, fuelType)"

text \<open>
  \<^verbatim>\<open>insert .. values {balance: amount.toString()} .. onConflictDoUpdate set balance = balance + amount\<close>.
  The row to insert is built first, so the amount itself must fit the column. Then a
  missing row is inserted holding the amount, for a user that exists; an existing row
  gets its balance plus the amount, stored in the column again.
\<close>

definition updateFuelBalance :: "string list \<Rightarrow> fuelBalances \<Rightarrow> string \<Rightarrow> string \<Rightarrow> number \<Rightarrow> timestamp \<Rightarrow> js_error + fuelBalances \<times> fuelBalance" where
  "updateFuelBalance us fb userId fuelType amt now =
     (case numeric_10_2 amt of
        Inl v \<Rightarrow> Inl (DatabaseError v)
      | Inr h \<Rightarrow>
          (case fb (userId, fuelType) of
             None \<Rightarrow>
               if userId \<in> set us
               then (let row = \<lparr>balance = h, updatedAt = now\<rparr>
                     in Inr (fb((userId, fuelType) \<mapsto> row), row))
               else Inl (DatabaseError
                      (ForeignKeyViolation ''fuel_balances'' ''fuel_balances_user_id_users_id_fk''))
           | Some r \<Rightarrow>
               (case numeric_10_2 (number_of_decimal (balance r) + amt) of
                  Inl v \<Rightarrow> Inl (DatabaseError v)
                | Inr new_balance \<Rightarrow>
                    (let row = r\<lparr>balance := new_balance, updatedAt := now\<rparr>
                     in Inr (fb((userId, fuelType) \<mapsto> row), row)))))"

text \<open>
  \<^verbatim>\<open>initializeFuelBalances\<close>: one \<^verbatim>\<open>insert .. onConflictDoNothing\<close> per fuel kind, each a
  statement of its own. The result is the table after the statements that ran, and the
  error that ended the loop, if any.
\<close>

fun insert_zero_balances :: "string list \<Rightarrow> fuelBalances \<Rightarrow> string \<Rightarrow> timestamp \<Rightarrow> string list \<Rightarrow> fuelBalances \<times> js_error option" where
  "insert_zero_balances us fb userId now [] = (fb, None)"
| "insert_zero_balances us fb userId now (fuelType # rest) =
     (case fb (userId, fuelType) of
        Some existing \<Rightarrow> insert_zero_balances us fb userId now rest
      | None \<Rightarrow>
          if userId \<in> set us
          then insert_zero_balances us
                 (fb((userId, fuelType) \<mapsto> \<lparr>balance = 0, updatedAt = now\<rparr>)) userId now rest
          else (fb, Some (DatabaseError
                  (ForeignKeyViolation ''fuel_balances'' ''fuel_balances_user_id_users_id_fk''))))"

definition initializeFuelBalances :: "string list \<Rightarrow> fuelBalances \<Rightarrow> string \<Rightarrow> timestamp \<Rightarrow> fuelBalances \<times> js_error option" where
  "initializeFuelBalances us fb userId now =
     insert_zero_balances us fb userId now [''petrol'', ''diesel'']"

text \<open>
  The ledger after a sequence of calls for one user and fuel kind, in list order; each
  call comes with its delta and its clock reading. A call that is refused leaves the
  table as it was, and the next call is made all the same.
\<close>

fun apply_deltas :: "string list \<Rightarrow> fuelBalances \<Rightarrow> string \<Rightarrow> string \<Rightarrow> (number \<times> timestamp) list \<Rightarrow> fuelBalances" where
  "apply_deltas us fb userId fuelType [] = fb"
| "apply_deltas us fb userId fuelType ((d, now) # ds) =
     (case updateFuelBalance us fb userId fuelType d now of
        Inl e \<Rightarrow> apply_deltas us fb userId fuelType ds
      | Inr (fb', row) \<Rightarrow> apply_deltas us fb' userId fuelType ds)"

text \<open>
  Deltas of whole hundredths whose running totals, from the balance \<open>b\<close> on, all fit
  the column, as each delta does.
\<close>

fun totals_within :: "decimal \<Rightarrow> decimal list \<Rightarrow> bool" where
  "totals_within b [] = True"
| "totals_within b (h # hs) = (in_range h \<and> in_range (b + h) \<and> totals_within (b + h) hs)"

definition calls_of :: "(decimal \<times> timestamp) list \<Rightarrow> (number \<times> timestamp) list" where
  "calls_of hs = map (\<lambda>(h, now). (number_of_decimal h, now)) hs"

text \<open>The quantity a user holds of a fuel kind; no row is no fuel.\<close>

definition balance_of :: "fuelBalances \<Rightarrow> string \<Rightarrow> string \<Rightarrow> decimal" where
  "balance_of fb userId fuelType =
     (case getFuelBalance fb userId fuelType of None \<Rightarrow> 0 | Some r \<Rightarrow> balance r)"

subsection \<open>Transactions\<close>


subsection \<open>Coupons\<close>

definition getCouponByCode :: "coupon list \<Rightarrow> string \<Rightarrow> coupon option" where
  "getCouponByCode cs k = select_first (\<lambda>c. code c = k) cs"

definition redeemCoupon :: "string list \<Rightarrow> coupon list \<Rightarrow> string \<Rightarrow> string \<Rightarrow> timestamp \<Rightarrow> js_error + coupon list \<times> coupon" where
  "redeemCoupon us cs k userId now =
     (if list_ex (\<lambda>c. (code c = k \<and> c_status c = ''active'') \<and> usedBy c \<noteq> Some userId) cs
         \<and> userId \<notin> set us
      then Inl (DatabaseError (ForeignKeyViolation ''coupons'' ''coupons_used_by_users_id_fk''))
      else (case update_where (\<lambda>c. code c = k \<and> c_status c = ''active'')
                   (\<lambda>c. c\<lparr>c_status := ''used'', usedAt := Some now, usedBy := Some userId\<rparr>) cs of
              (cs', None) \<Rightarrow> Inl (Error ''Coupon not found or already used'')
            | (cs', Some c) \<Rightarrow> Inr (cs', c)))"

text \<open>
  \<^verbatim>\<open>Math.random().toString(36)\<close> is the only input the generator does not get from
  its caller: each element of \<open>draws\<close> is the text one call produced, such as
  \<^verbatim>\<open>0.4fzyo82mvyr\<close>. The \<^verbatim>\<open>while\<close> loop consumes one draw per round and may go on for
  ever; \<open>None\<close> says that the draws given were used up with the loop still running.
\<close>

definition randomPart :: "string \<Rightarrow> string" where
  "randomPart draw = toUpperCase (substring draw 2 8)"

definition coupon_code :: "string \<Rightarrow> decimal \<Rightarrow> string \<Rightarrow> string" where
  "coupon_code prefix amt draw =
     ''FUEL-'' @ prefix @ ''-'' @ number_toString amt @ ''L-'' @ randomPart draw"

fun unique_code_loop :: "coupon list \<Rightarrow> string \<Rightarrow> decimal \<Rightarrow> string list \<Rightarrow> string option" where
  "unique_code_loop cs prefix amt [] = None"
| "unique_code_loop cs prefix amt (draw # draws) =
     (let c = coupon_code prefix amt draw in
      case getCouponByCode cs c of
        None \<Rightarrow> Some c
      | Some existing \<Rightarrow> unique_code_loop cs prefix amt draws)"

definition generateUniqueCouponCode :: "coupon list \<Rightarrow> string \<Rightarrow> decimal \<Rightarrow> string list \<Rightarrow> string option" where
  "generateUniqueCouponCode cs fuelType amt draws =
     unique_code_loop cs (if fuelType = ''petrol'' then ''PET'' else ''DSL'') amt draws"

section \<open>Routes: \<^verbatim>\<open>server/routes.ts\<close>\<close>

datatype json =
    JNull
  | JString string
  | JDate timestamp
  | JArray "json list"
  | JObject "(string \<times> json) list"

datatype http_method = GET | POST | PATCH

record express_user =
  u_id :: string
  userType :: "string option"

record request =
  r_method :: http_method
  r_path :: "string list"
  r_user :: "express_user option"
  b_code :: string
  b_reason :: "string option"

text \<open>A response is the status and the body sent; \<open>None\<close> is an empty body.\<close>

record response =
  status :: nat
  body :: "json option"

definition json_opt :: "('a \<Rightarrow> json) \<Rightarrow> 'a option \<Rightarrow> json" where
  "json_opt f x = (case x of None \<Rightarrow> JNull | Some v \<Rightarrow> f v)"

definition status_text :: "vehicle_status \<Rightarrow> string" where
  "status_text s =
     (case s of Pending \<Rightarrow> ''pending'' | Approved \<Rightarrow> ''approved'' | Rejected \<Rightarrow> ''rejected''
      | Active \<Rightarrow> ''active'' | Suspended \<Rightarrow> ''suspended'')"

definition vehicle_json :: "vehicle \<Rightarrow> json" where
  "vehicle_json v = JObject
     [(''id'', JString (v_id v)),
      (''registrationNumber'', JString (registrationNumber v)),
      (''ownerId'', JString (ownerId v)),
      (''fuelType'', JString (v_fuelType v)),
      (''status'', JString (status_text (v_status v))),
      (''approvedAt'', json_opt JDate (approvedAt v)),
      (''approvedBy'', json_opt JString (approvedBy v)),
      (''rejectionReason'', json_opt JString (rejectionReason v))]"

definition coupon_json :: "coupon \<Rightarrow> json" where
  "coupon_json c = JObject
     [(''id'', JString (c_id c)),
      (''code'', JString (code c)),
      (''fuelType'', JString (c_fuelType c)),
      (''amount'', JString (pg_numeric_text (amount c))),
      (''status'', JString (c_status c)),
      (''description'', json_opt JString (description c)),
      (''expiryDate'', json_opt JDate (expiryDate c)),
      (''usedAt'', json_opt JDate (usedAt c)),
      (''usedBy'', json_opt JString (usedBy c)),
      (''createdBy'', JString (createdBy c)),
      (''createdAt'', JDate (createdAt c))]"

definition error_json :: "string \<Rightarrow> json" where
  "error_json msg = JObject [(''error'', JString msg)]"

text \<open>
  \<^verbatim>\<open>const userId = req.user?.id; if (!userId) ..\<close>: no user, or a user whose id is
  the empty string, is not authenticated.
\<close>

definition authenticated_id :: "request \<Rightarrow> string option" where
  "authenticated_id req =
     (case r_user req of
        None \<Rightarrow> None
      | Some u \<Rightarrow> if u_id u = [] then None else Some (u_id u))"

definition not_authenticated :: response where
  "not_authenticated = \<lparr>status = 401, body = Some (error_json ''Not authenticated'')\<rparr>"

text \<open>\<^verbatim>\<open>row?.balance || '0.00'\<close>\<close>

definition balance_or_default :: "fuelBalance option \<Rightarrow> string" where
  "balance_or_default row =
     (case row of None \<Rightarrow> ''0.00'' | Some r \<Rightarrow> js_or (pg_numeric_text (balance r)) ''0.00'')"

definition server_error :: "string \<Rightarrow> response" where
  "server_error msg = \<lparr>status = 500, body = Some (error_json msg)\<rparr>"

text \<open>
  The handler of the first \<^verbatim>\<open>app.get("/api/fuel-balances", ..)\<close>, at line 81. An error
  thrown by \<open>initializeFuelBalances\<close> reaches the \<^verbatim>\<open>catch\<close>.
\<close>

definition get_fuel_balances_first :: "timestamp \<Rightarrow> request \<Rightarrow> db \<Rightarrow> db \<times> response" where
  "get_fuel_balances_first now req d =
     (case authenticated_id req of
        None \<Rightarrow> (d, not_authenticated)
      | Some userId \<Rightarrow>
          (case initializeFuelBalances (users d) (fuel_balances d) userId now of
             (fb, Some e) \<Rightarrow>
               (d\<lparr>fuel_balances := fb\<rparr>, server_error ''Failed to get fuel balances'')
           | (fb, None) \<Rightarrow>
               (let petrolBalance = getFuelBalance fb userId ''petrol'';
                    dieselBalance = getFuelBalance fb userId ''diesel''
                in (d\<lparr>fuel_balances := fb\<rparr>,
                    \<lparr>status = 200,
                     body = Some (JArray
                       [JObject [(''fuelType'', JString ''petrol''),
                                 (''balance'', JString (balance_or_default petrolBalance))],
                        JObject [(''fuelType'', JString ''diesel''),
                                 (''balance'', JString (balance_or_default dieselBalance))]])\<rparr>))))"

text \<open>The shape \<^verbatim>\<open>{petrol: string, diesel: string}\<close>.\<close>

definition is_balances_object :: "json \<Rightarrow> bool" where
  "is_balances_object j =
     (case j of
        JObject [(k1, JString p), (k2, JString q)] \<Rightarrow> k1 = ''petrol'' \<and> k2 = ''diesel''
      | _ \<Rightarrow> False)"

text \<open>The handler of the second \<^verbatim>\<open>app.get("/api/fuel-balances", ..)\<close>, at line 196.\<close>

definition get_fuel_balances_second :: "timestamp \<Rightarrow> request \<Rightarrow> db \<Rightarrow> db \<times> response" where
  "get_fuel_balances_second now req d =
     (case authenticated_id req of
        None \<Rightarrow> (d, not_authenticated)
      | Some userId \<Rightarrow>
          (let petrolBalance = getFuelBalance (fuel_balances d) userId ''petrol'';
               dieselBalance = getFuelBalance (fuel_balances d) userId ''diesel''
           in (d,
               \<lparr>status = 200,
                body = Some (JObject
                  [(''petrol'', JString (balance_or_default petrolBalance)),
                   (''diesel'', JString (balance_or_default dieselBalance))])\<rparr>)))"

text \<open>
  \<^verbatim>\<open>res.json(vehicle)\<close> with \<^verbatim>\<open>vehicle\<close> undefined: \<^verbatim>\<open>JSON.stringify(undefined)\<close> is
  \<^verbatim>\<open>undefined\<close>, and the response goes out with status 200 and no body.
\<close>

definition patch_vehicle_approve :: "timestamp \<Rightarrow> string \<Rightarrow> request \<Rightarrow> db \<Rightarrow> db \<times> response" where
  "patch_vehicle_approve now vid req d =
     (case authenticated_id req of
        None \<Rightarrow> (d, not_authenticated)
      | Some adminId \<Rightarrow>
          (case approveVehicle (users d) (vehicles d) vid adminId now of
             Inl e \<Rightarrow> (d, server_error ''Failed to approve vehicle'')
           | Inr (vs', vehicle) \<Rightarrow>
               (d\<lparr>vehicles := vs'\<rparr>, \<lparr>status = 200, body = map_option vehicle_json vehicle\<rparr>)))"

definition patch_vehicle_reject :: "timestamp \<Rightarrow> string \<Rightarrow> request \<Rightarrow> db \<Rightarrow> db \<times> response" where
  "patch_vehicle_reject now vid req d =
     (case authenticated_id req of
        None \<Rightarrow> (d, not_authenticated)
      | Some adminId \<Rightarrow>
          (case rejectVehicle (users d) (vehicles d) vid adminId (b_reason req) of
             Inl e \<Rightarrow> (d, server_error ''Failed to reject vehicle'')
           | Inr (vs', vehicle) \<Rightarrow>
               (d\<lparr>vehicles := vs'\<rparr>, \<lparr>status = 200, body = map_option vehicle_json vehicle\<rparr>)))"

text \<open>\<^verbatim>\<open>error instanceof Error ? error.message : "Failed to redeem coupon"\<close>\<close>

definition redeem_error_text :: "js_error \<Rightarrow> string" where
  "redeem_error_text e =
     (case e of
        Error message \<Rightarrow> message
      | DatabaseError v \<Rightarrow> database_message v
      | NotAnError \<Rightarrow> ''Failed to redeem coupon'')"

definition bad_request :: "js_error \<Rightarrow> response" where
  "bad_request e = \<lparr>status = 400, body = Some (error_json (redeem_error_text e))\<rparr>"

text \<open>
  \<^verbatim>\<open>POST /api/coupons/redeem\<close>. A throw of \<open>redeemCoupon\<close> reaches the \<^verbatim>\<open>catch\<close>, which
  answers 400 with the error's message. Otherwise \<open>updateFuelBalance\<close> is called with
  \<^verbatim>\<open>parseFloat(coupon.amount)\<close>; a throw of that call reaches the same \<^verbatim>\<open>catch\<close>, with the
  coupon already written; when it returns, the coupon is sent back.
\<close>

definition post_coupons_redeem :: "timestamp \<Rightarrow> request \<Rightarrow> db \<Rightarrow> db \<times> response" where
  "post_coupons_redeem now req d =
     (case authenticated_id req of
        None \<Rightarrow> (d, not_authenticated)
      | Some userId \<Rightarrow>
          (case redeemCoupon (users d) (coupons d) (b_code req) userId now of
             Inl e \<Rightarrow> (d, bad_request e)
           | Inr (cs', coupon) \<Rightarrow>
               (case updateFuelBalance (users d) (fuel_balances d) userId (c_fuelType coupon)
                       (number_of_decimal (amount coupon)) now of
                  Inl e \<Rightarrow> (d\<lparr>coupons := cs'\<rparr>, bad_request e)
                | Inr (fb, row) \<Rightarrow>
                    (d\<lparr>coupons := cs', fuel_balances := fb\<rparr>,
                     \<lparr>status = 200, body = Some (coupon_json coupon)\<rparr>))))"




subsection \<open>Dispatch\<close>

text \<open>
  \<^verbatim>\<open>registerRoutes\<close> adds the handlers to the application in the order of the file, and
  the application gives a request to the first route whose method and path match it.
  None of these handlers calls \<^verbatim>\<open>next\<close>, so no later route sees the request. The table
  lists the routes above in that order; no other route of the file matches their paths.
\<close>

datatype segment = Lit string | Param

datatype handler =
    FuelBalancesFirst
  | VehicleApprove
  | VehicleReject
  | FuelBalancesSecond
  | CouponsRedeem

definition registerRoutes :: "(http_method \<times> segment list \<times> handler) list" where
  "registerRoutes =
     [(GET, [Lit ''api'', Lit ''fuel-balances''], FuelBalancesFirst),
      (PATCH, [Lit ''api'', Lit ''vehicles'', Param, Lit ''approve''], VehicleApprove),
      (PATCH, [Lit ''api'', Lit ''vehicles'', Param, Lit ''reject''], VehicleReject),
      (GET, [Lit ''api'', Lit ''fuel-balances''], FuelBalancesSecond),
      (POST, [Lit ''api'', Lit ''coupons'', Lit ''redeem''], CouponsRedeem)]"

fun match_path :: "segment list \<Rightarrow> string list \<Rightarrow> string list option" where
  "match_path [] [] = Some []"
| "match_path (Lit s # ps) (x # xs) = (if s = x then match_path ps xs else None)"
| "match_path (Param # ps) (x # xs) =
     (if x = [] then None else map_option (\<lambda>params. x # params) (match_path ps xs))"
| "match_path _ _ = None"

fun find_route :: "(http_method \<times> segment list \<times> handler) list \<Rightarrow> request \<Rightarrow> (handler \<times> string list) option" where
  "find_route [] req = None"
| "find_route ((m, pat, h) # routes) req =
     (if m = r_method req
      then (case match_path pat (r_path req) of
              Some params \<Rightarrow> Some (h, params)
            | None \<Rightarrow> find_route routes req)
      else find_route routes req)"

definition run_handler :: "handler \<Rightarrow> string list \<Rightarrow> timestamp \<Rightarrow> request \<Rightarrow> db \<Rightarrow> db \<times> response" where
  "run_handler h params now req d =
     (case h of
        FuelBalancesFirst \<Rightarrow> get_fuel_balances_first now req d
      | FuelBalancesSecond \<Rightarrow> get_fuel_balances_second now req d
      | VehicleApprove \<Rightarrow> patch_vehicle_approve now (concat (take 1 params)) req d
      | VehicleReject \<Rightarrow> patch_vehicle_reject now (concat (take 1 params)) req d
      | CouponsRedeem \<Rightarrow> post_coupons_redeem now req d)"

definition handle_request :: "timestamp \<Rightarrow> request \<Rightarrow> db \<Rightarrow> db \<times> response" where
  "handle_request now req d =
     (case find_route registerRoutes req of
        None \<Rightarrow> (d, \<lparr>status = 404, body = None\<rparr>)
      | Some (h, params) \<Rightarrow> run_handler h params now req d)"

section \<open>Sample data\<close>

text \<open>
  A small database for the concrete runs below: one vehicle that is already approved,
  one completed transaction, one active coupon whose expiry date (5) is over at the
  time of the runs (10 and later), and no balance rows; then the same with balance rows
  for \<^verbatim>\<open>alice\<close>: petrol at the column's maximum, or petrol at 12.50 and no diesel row.
  \<^verbatim>\<open>ghost\<close> is an id that no user has.
\<close>

definition sample_vehicle :: vehicle where
  "sample_vehicle =
     \<lparr>v_id = ''v1'', registrationNumber = ''ABC-1234'', ownerId = ''alice'',
      v_fuelType = ''petrol'', v_status = Approved, approvedAt = Some 3,
      approvedBy = Some ''admin'', rejectionReason = None\<rparr>"

definition sample_transaction :: transaction where
  "sample_transaction =
     \<lparr>t_id = ''t1'', t_userId = ''alice'', transactionType = ''top_up'', t_amount = 2500,
      t_status = ''completed'', completedAt = Some 4\<rparr>"

definition sample_coupon :: coupon where
  "sample_coupon =
     \<lparr>c_id = ''c1'', code = ''FUEL-PET-10L-ABCD12'', c_fuelType = ''petrol'', amount = 1000,
      c_status = ''active'', description = None, expiryDate = Some 5, usedAt = None,
      usedBy = None, createdBy = ''admin'', createdAt = 1\<rparr>"

definition sample_db :: db where
  "sample_db =
     \<lparr>users = [''alice'', ''bob'', ''admin'', ''admin2''],
      vehicles = [sample_vehicle], fuel_balances = Map.empty,
      transactions = [sample_transaction], coupons = [sample_coupon]\<rparr>"

definition brimful_db :: db where
  "brimful_db =
     sample_db\<lparr>fuel_balances :=
       [(''alice'', ''petrol'') \<mapsto> \<lparr>balance = 9999999999, updatedAt = 2\<rparr>]\<rparr>"

definition stocked_db :: db where
  "stocked_db =
     sample_db\<lparr>fuel_balances :=
       [(''alice'', ''petrol'') \<mapsto> \<lparr>balance = 1250, updatedAt = 2\<rparr>]\<rparr>"

definition sample_user :: "string \<Rightarrow> express_user" where
  "sample_user userId = \<lparr>u_id = userId, userType = None\<rparr>"

definition redeem_request :: "string \<Rightarrow> request" where
  "redeem_request userId =
     \<lparr>r_method = POST, r_path = [''api'', ''coupons'', ''redeem''],
      r_user = Some (sample_user userId),
      b_code = ''FUEL-PET-10L-ABCD12'', b_reason = None\<rparr>"

definition balances_request :: "string \<Rightarrow> request" where
  "balances_request userId =
     \<lparr>r_method = GET, r_path = [''api'', ''fuel-balances''],
      r_user = Some (sample_user userId), b_code = [], b_reason = None\<rparr>"

definition vehicle_request :: "string \<Rightarrow> string \<Rightarrow> string \<Rightarrow> request" where
  "vehicle_request userId vid action =
     \<lparr>r_method = PATCH, r_path = [''api'', ''vehicles'', vid, action],
      r_user = Some (sample_user userId), b_code = [], b_reason = Some ''no papers''\<rparr>"

section \<open>Numbers and columns\<close>

lemma round_half_away_of_int: "round_half_away (of_int n) = n"
  by (simp add: round_half_away_def) linarith

lemma numeric_of_decimal:
  "numeric_10_2 (number_of_decimal h) = (if in_range h then Inr h else Inl NumericFieldOverflow)"
  by (simp add: numeric_10_2_def number_of_decimal_def round_half_away_of_int)

lemma number_of_decimal_add:
  "number_of_decimal b + number_of_decimal h = number_of_decimal (b + h)"
  by (simp add: number_of_decimal_def add_divide_distrib)

lemma updateFuelBalance_insert:
  assumes "fb (u, k) = None" and "u \<in> set us" and "in_range h"
  shows "updateFuelBalance us fb u k (number_of_decimal h) now =
           Inr (fb((u, k) \<mapsto> \<lparr>balance = h, updatedAt = now\<rparr>), \<lparr>balance = h, updatedAt = now\<rparr>)"
  using assms by (simp add: updateFuelBalance_def numeric_of_decimal Let_def)

lemma updateFuelBalance_add:
  assumes "fb (u, k) = Some r" and "in_range h" and "in_range (balance r + h)"
  shows "updateFuelBalance us fb u k (number_of_decimal h) now =
           Inr (fb((u, k) \<mapsto> r\<lparr>balance := balance r + h, updatedAt := now\<rparr>),
                r\<lparr>balance := balance r + h, updatedAt := now\<rparr>)"
  using assms by (simp add: updateFuelBalance_def numeric_of_decimal number_of_decimal_add Let_def)

lemma updateFuelBalance_overflow:
  assumes "fb (u, k) = Some r" and "in_range h" and "\<not> in_range (balance r + h)"
  shows "updateFuelBalance us fb u k (number_of_decimal h) now = Inl (DatabaseError NumericFieldOverflow)"
  using assms by (simp add: updateFuelBalance_def numeric_of_decimal number_of_decimal_add Let_def)

lemma updateFuelBalance_no_user:
  assumes "fb (u, k) = None" and "u \<notin> set us" and "in_range h"
  shows "updateFuelBalance us fb u k (number_of_decimal h) now =
     Inl (DatabaseError (ForeignKeyViolation ''fuel_balances'' ''fuel_balances_user_id_users_id_fk''))"
  using assms by (simp add: updateFuelBalance_def numeric_of_decimal Let_def)

section \<open>Coupon redemption\<close>

subsection \<open>Conditional updates\<close>

lemma update_where_none:
  "filter p rows = [] \<Longrightarrow> update_where p f rows = (rows, None)"
  by (auto simp: update_where_def filter_empty_conv intro: map_idI)

lemma update_where_Cons:
  "filter p rows = r # rest \<Longrightarrow>
   update_where p f rows = (map (\<lambda>r. if p r then f r else r) rows, Some (f r))"
  by (simp add: update_where_def)

lemma list_ex_filter_Nil:
  "filter p rows = [] \<Longrightarrow> \<not> list_ex (\<lambda>r. p r \<and> q r) rows"
  by (auto simp: list_ex_iff filter_empty_conv)

lemma redeemCoupon_none:
  assumes "filter (\<lambda>c. code c = k \<and> c_status c = ''active'') cs = []"
  shows "redeemCoupon us cs k u now = Inl (Error ''Coupon not found or already used'')"
proof -
  from list_ex_filter_Nil [OF assms]
  have "\<not> list_ex (\<lambda>c. (code c = k \<and> c_status c = ''active'') \<and> usedBy c \<noteq> Some u) cs" .
  then show ?thesis
    unfolding redeemCoupon_def
    by (simp only: update_where_none [OF assms] prod.case option.case simp_thms if_False)
qed

lemma redeemCoupon_Cons:
  assumes "filter (\<lambda>c. code c = k \<and> c_status c = ''active'') cs = c0 # rest"
    and "u \<in> set us \<or> \<not> list_ex (\<lambda>c. (code c = k \<and> c_status c = ''active'') \<and> usedBy c \<noteq> Some u) cs"
  shows "redeemCoupon us cs k u now =
     Inr (map (\<lambda>c. if code c = k \<and> c_status c = ''active''
                    then c\<lparr>c_status := ''used'', usedAt := Some now, usedBy := Some u\<rparr> else c) cs,
          c0\<lparr>c_status := ''used'', usedAt := Some now, usedBy := Some u\<rparr>)"
proof -
  from assms(2)
  have "\<not> (list_ex (\<lambda>c. (code c = k \<and> c_status c = ''active'') \<and> usedBy c \<noteq> Some u) cs \<and> u \<notin> set us)"
    by blast
  then show ?thesis
    unfolding redeemCoupon_def
    by (simp only: update_where_Cons [OF assms(1)] prod.case option.case if_False)
qed

lemma redeemCoupon_refused:
  assumes "list_ex (\<lambda>c. (code c = k \<and> c_status c = ''active'') \<and> usedBy c \<noteq> Some u) cs"
    and "u \<notin> set us"
  shows "redeemCoupon us cs k u now =
     Inl (DatabaseError (ForeignKeyViolation ''coupons'' ''coupons_used_by_users_id_fk''))"
  using assms unfolding redeemCoupon_def by (simp only: simp_thms if_True)

lemma redeemCoupon_Inr:
  assumes "redeemCoupon us cs k u now = Inr (cs', c)"
  shows "\<exists>c0 rest. filter (\<lambda>c. code c = k \<and> c_status c = ''active'') cs = c0 # rest \<and>
           (u \<in> set us \<or> \<not> list_ex (\<lambda>c. (code c = k \<and> c_status c = ''active'') \<and> usedBy c \<noteq> Some u) cs) \<and>
           c = c0\<lparr>c_status := ''used'', usedAt := Some now, usedBy := Some u\<rparr> \<and>
           cs' = map (\<lambda>c. if code c = k \<and> c_status c = ''active''
                    then c\<lparr>c_status := ''used'', usedAt := Some now, usedBy := Some u\<rparr> else c) cs"
proof (cases "filter (\<lambda>c. code c = k \<and> c_status c = ''active'') cs")
  case Nil
  with assms show ?thesis by (simp only: redeemCoupon_none) simp
next
  case (Cons c0 rest)
  show ?thesis
  proof (cases "u \<in> set us \<or> \<not> list_ex (\<lambda>c. (code c = k \<and> c_status c = ''active'') \<and> usedBy c \<noteq> Some u) cs")
    case True
    from assms have "c = c0\<lparr>c_status := ''used'', usedAt := Some now, usedBy := Some u\<rparr> \<and>
        cs' = map (\<lambda>c. if code c = k \<and> c_status c = ''active''
        then c\<lparr>c_status := ''used'', usedAt := Some now, usedBy := Some u\<rparr> else c) cs"
      by (simp only: redeemCoupon_Cons [OF Cons True]) simp
    with Cons True show ?thesis by blast
  next
    case False
    then have "list_ex (\<lambda>c. (code c = k \<and> c_status c = ''active'') \<and> usedBy c \<noteq> Some u) cs"
      and "u \<notin> set us" by blast+
    from redeemCoupon_refused [OF this] assms show ?thesis by simp
  qed
qed

lemma used_not_active: "(''used'' :: string) \<noteq> ''active''"
  by simp

lemma rewritten_none_active:
  "filter (\<lambda>c. code c = k \<and> c_status c = ''active'')
     (map (\<lambda>c::coupon. if code c = k \<and> c_status c = ''active''
                then c\<lparr>c_status := ''used'', usedAt := Some now, usedBy := Some u\<rparr> else c) cs) = []"
proof -
  define g where "g = (\<lambda>c::coupon. if code c = k \<and> c_status c = ''active''
      then c\<lparr>c_status := ''used'', usedAt := Some now, usedBy := Some u\<rparr> else c)"
  have "\<not> (code (g x) = k \<and> c_status (g x) = ''active'')" for x
  proof (cases "code x = k \<and> c_status x = ''active''")
    case True
    then have "c_status (g x) = ''used''" by (simp add: g_def)
    then show ?thesis by (simp only: used_not_active) simp
  next
    case False
    then have "g x = x" by (simp only: g_def if_False)
    with False show ?thesis by simp
  qed
  then have "filter (\<lambda>c. code c = k \<and> c_status c = ''active'') (map g cs) = []"
    by (simp only: filter_empty_conv set_map) blast
  then show ?thesis unfolding g_def .
qed

lemma redeemCoupon_leaves_none_active:
  assumes "redeemCoupon us cs k u now = Inr (cs', c)"
  shows "filter (\<lambda>c. code c = k \<and> c_status c = ''active'') cs' = []"
proof -
  from redeemCoupon_Inr [OF assms]
  have "cs' = map (\<lambda>c. if code c = k \<and> c_status c = ''active''
                    then c\<lparr>c_status := ''used'', usedAt := Some now, usedBy := Some u\<rparr> else c) cs"
    by blast
  then show ?thesis by (simp only: rewritten_none_active)
qed


lemma updateFuelBalance_decimal:
  "updateFuelBalance us fb u k (number_of_decimal h) now =
     (if \<not> in_range h then Inl (DatabaseError NumericFieldOverflow)
      else case fb (u, k) of
             None \<Rightarrow>
               if u \<in> set us
               then Inr (fb((u, k) \<mapsto> \<lparr>balance = h, updatedAt = now\<rparr>),
                         \<lparr>balance = h, updatedAt = now\<rparr>)
               else Inl (DatabaseError
                      (ForeignKeyViolation ''fuel_balances'' ''fuel_balances_user_id_users_id_fk''))
           | Some r \<Rightarrow>
               if in_range (balance r + h)
               then Inr (fb((u, k) \<mapsto> r\<lparr>balance := balance r + h, updatedAt := now\<rparr>),
                         r\<lparr>balance := balance r + h, updatedAt := now\<rparr>)
               else Inl (DatabaseError NumericFieldOverflow))"
  by (simp add: updateFuelBalance_def numeric_of_decimal number_of_decimal_add Let_def
      split: option.splits)

lemma updateFuelBalance_credit:
  assumes "updateFuelBalance us fb u k (number_of_decimal h) now = Inr (fb', row)"
  shows "fb' = fb((u, k) \<mapsto> row) \<and> balance row = balance_of fb u k + h \<and>
         updatedAt row = now \<and> balance_of fb' u k = balance_of fb u k + h"
  using assms unfolding updateFuelBalance_decimal
  by (auto simp: balance_of_def getFuelBalance_def split: if_splits option.splits)

lemma updateFuelBalance_refused:
  assumes "updateFuelBalance us fb u k amt now = Inl e"
  shows "\<exists>v. e = DatabaseError v"
  using assms
  by (auto simp: updateFuelBalance_def Let_def split: sum.splits option.splits if_splits)

lemma post_coupons_redeem_ok:
  assumes "authenticated_id req = Some u"
    and "redeemCoupon (users d) (coupons d) (b_code req) u now = Inr (cs', c)"
    and "updateFuelBalance (users d) (fuel_balances d) u (c_fuelType c)
           (number_of_decimal (amount c)) now = Inr (fb, row)"
  shows "post_coupons_redeem now req d =
     (d\<lparr>coupons := cs', fuel_balances := fb\<rparr>, \<lparr>status = 200, body = Some (coupon_json c)\<rparr>)"
  using assms by (simp add: post_coupons_redeem_def)

lemma post_coupons_redeem_uncredited:
  assumes "authenticated_id req = Some u"
    and "redeemCoupon (users d) (coupons d) (b_code req) u now = Inr (cs', c)"
    and "updateFuelBalance (users d) (fuel_balances d) u (c_fuelType c)
           (number_of_decimal (amount c)) now = Inl e"
  shows "post_coupons_redeem now req d = (d\<lparr>coupons := cs'\<rparr>, bad_request e)"
  using assms by (simp add: post_coupons_redeem_def)

lemma post_coupons_redeem_fail:
  assumes "authenticated_id req = Some u"
    and "redeemCoupon (users d) (coupons d) (b_code req) u now = Inl e"
  shows "post_coupons_redeem now req d = (d, bad_request e)"
  using assms by (simp add: post_coupons_redeem_def)

lemma bad_request_status: "status (bad_request e) = 400"
  by (simp add: bad_request_def)

lemma sample_authenticated:
  "authenticated_id (redeem_request ''alice'') = Some ''alice''"
  "authenticated_id (redeem_request ''bob'') = Some ''bob''"
  "authenticated_id (redeem_request ''ghost'') = Some ''ghost''"
  "b_code (redeem_request u) = ''FUEL-PET-10L-ABCD12''"
  by (simp_all add: authenticated_id_def redeem_request_def sample_user_def)

lemma sample_tables:
  "users sample_db = [''alice'', ''bob'', ''admin'', ''admin2'']"
  "coupons sample_db = [sample_coupon]"
  "vehicles sample_db = [sample_vehicle]"
  "transactions sample_db = [sample_transaction]"
  "fuel_balances sample_db = Map.empty"
  "users brimful_db = users sample_db" "coupons brimful_db = coupons sample_db"
  "users stocked_db = users sample_db" "coupons stocked_db = coupons sample_db"
  "fuel_balances brimful_db = [(''alice'', ''petrol'') \<mapsto> \<lparr>balance = 9999999999, updatedAt = 2\<rparr>]"
  "fuel_balances stocked_db = [(''alice'', ''petrol'') \<mapsto> \<lparr>balance = 1250, updatedAt = 2\<rparr>]"
  by (simp_all add: sample_db_def brimful_db_def stocked_db_def)

lemma sample_coupon_filter:
  "filter (\<lambda>c. code c = ''FUEL-PET-10L-ABCD12'' \<and> c_status c = ''active'') [sample_coupon]
     = [sample_coupon]"
  by (simp add: sample_coupon_def)

lemma sample_first_redeem:
  "redeemCoupon (users sample_db) (coupons sample_db) ''FUEL-PET-10L-ABCD12'' ''alice'' 10 =
     Inr ([sample_coupon\<lparr>c_status := ''used'', usedAt := Some 10, usedBy := Some ''alice''\<rparr>],
          sample_coupon\<lparr>c_status := ''used'', usedAt := Some 10, usedBy := Some ''alice''\<rparr>)"
proof -
  have "''alice'' \<in> set (users sample_db)" by (simp add: sample_tables)
  then have "redeemCoupon (users sample_db) [sample_coupon] ''FUEL-PET-10L-ABCD12'' ''alice'' 10 =
     Inr (map (\<lambda>c. if code c = ''FUEL-PET-10L-ABCD12'' \<and> c_status c = ''active''
                    then c\<lparr>c_status := ''used'', usedAt := Some 10, usedBy := Some ''alice''\<rparr> else c)
            [sample_coupon],
          sample_coupon\<lparr>c_status := ''used'', usedAt := Some 10, usedBy := Some ''alice''\<rparr>)"
    by (intro redeemCoupon_Cons [OF sample_coupon_filter] disjI1)
  then show ?thesis by (simp add: sample_tables sample_coupon_def)
qed

lemma sample_credit:
  "updateFuelBalance (users sample_db) (fuel_balances sample_db) ''alice'' ''petrol''
     (number_of_decimal 1000) 10 =
   Inr ([(''alice'', ''petrol'') \<mapsto> \<lparr>balance = 1000, updatedAt = 10\<rparr>],
        \<lparr>balance = 1000, updatedAt = 10\<rparr>)"
  "updateFuelBalance (users brimful_db) (fuel_balances brimful_db) ''alice'' ''petrol''
     (number_of_decimal 1000) 10 = Inl (DatabaseError NumericFieldOverflow)"
  by (simp_all add: updateFuelBalance_decimal sample_tables in_range_def)

text \<open>
  C1, as the code has it. When \<open>redeemCoupon\<close> succeeds for a code, a second
  \<open>redeemCoupon\<close> for the same code, by the same or by another user, fails with the
  message \<^verbatim>\<open>Coupon not found or already used\<close>. Through \<^verbatim>\<open>POST /api/coupons/redeem\<close>:
  the second request answers 400 with that message and changes nothing. After both, the
  first redeemer's balance of the coupon's fuel kind holds one credit of the coupon's
  amount when the first request's \<open>updateFuelBalance\<close> call returned, and the first
  answer was 200; it holds none when that call was refused, and the first answer was 400.
\<close>

theorem redeem_twice:
  assumes first: "redeemCoupon (users d) (coupons d) k u now = Inr (cs', c)"
    and reqA: "authenticated_id req = Some u" "b_code req = k"
    and reqB: "authenticated_id req' = Some u'" "b_code req' = k"
    and run1: "post_coupons_redeem now req d = (d', r)"
    and run2: "post_coupons_redeem now' req' d' = (d'', r')"
  shows "redeemCoupon (users d') cs' k u' now' = Inl (Error ''Coupon not found or already used'')
       \<and> coupons d' = cs'
       \<and> r' = \<lparr>status = 400, body = Some (error_json ''Coupon not found or already used'')\<rparr>
       \<and> d'' = d'
       \<and> (case updateFuelBalance (users d) (fuel_balances d) u (c_fuelType c)
                  (number_of_decimal (amount c)) now of
             Inr (fb, row) \<Rightarrow>
               status r = 200 \<and> fuel_balances d'' = fb \<and>
               balance_of (fuel_balances d'') u (c_fuelType c)
                 = balance_of (fuel_balances d) u (c_fuelType c) + amount c
           | Inl e \<Rightarrow>
               r = bad_request e \<and> fuel_balances d'' = fuel_balances d)"
proof -
  have second: "redeemCoupon us cs' k u' now' = Inl (Error ''Coupon not found or already used'')" for us
    by (rule redeemCoupon_none) (rule redeemCoupon_leaves_none_active [OF first])
  from first reqA(2) have first': "redeemCoupon (users d) (coupons d) (b_code req) u now = Inr (cs', c)"
    by simp
  have dA: "coupons d' = cs' \<and> users d' = users d \<and>
    (case updateFuelBalance (users d) (fuel_balances d) u (c_fuelType c)
                  (number_of_decimal (amount c)) now of
             Inr (fb, row) \<Rightarrow>
               status r = 200 \<and> fuel_balances d' = fb \<and>
               balance_of (fuel_balances d') u (c_fuelType c)
                 = balance_of (fuel_balances d) u (c_fuelType c) + amount c
           | Inl e \<Rightarrow>
               r = bad_request e \<and> fuel_balances d' = fuel_balances d)"
  proof (cases "updateFuelBalance (users d) (fuel_balances d) u (c_fuelType c)
                  (number_of_decimal (amount c)) now")
    case (Inl e)
    from post_coupons_redeem_uncredited [OF reqA(1) first' Inl] run1
    have "d' = d\<lparr>coupons := cs'\<rparr>" "r = bad_request e" by simp_all
    with Inl show ?thesis by simp
  next
    case (Inr p)
    obtain fb row where p: "p = (fb, row)" by (cases p)
    from Inr p have upd: "updateFuelBalance (users d) (fuel_balances d) u (c_fuelType c)
                  (number_of_decimal (amount c)) now = Inr (fb, row)" by simp
    from post_coupons_redeem_ok [OF reqA(1) first' upd] run1
    have "d' = d\<lparr>coupons := cs', fuel_balances := fb\<rparr>"
      "r = \<lparr>status = 200, body = Some (coupon_json c)\<rparr>" by simp_all
    then have "coupons d' = cs'" "users d' = users d" "fuel_balances d' = fb" "status r = 200"
      by simp_all
    moreover from updateFuelBalance_credit [OF upd]
    have "balance_of fb u (c_fuelType c) = balance_of (fuel_balances d) u (c_fuelType c) + amount c"
      by blast
    ultimately show ?thesis by (simp add: upd)
  qed
  then have cs: "coupons d' = cs'" by blast
  from second [of "users d'"] reqB(2) cs
  have "redeemCoupon (users d') (coupons d') (b_code req') u' now'
      = Inl (Error ''Coupon not found or already used'')" by simp
  from post_coupons_redeem_fail [OF reqB(1) this] run2
  have dB: "d'' = d'"
    and rB: "r' = \<lparr>status = 400, body = Some (error_json ''Coupon not found or already used'')\<rparr>"
    by (simp_all add: bad_request_def redeem_error_text_def)
  from second [of "users d'"] dA rB show ?thesis unfolding dB by blast
qed

lemma sample_brimful_redeem:
  "redeemCoupon (users brimful_db) (coupons brimful_db) ''FUEL-PET-10L-ABCD12'' ''alice'' 10 =
     Inr ([sample_coupon\<lparr>c_status := ''used'', usedAt := Some 10, usedBy := Some ''alice''\<rparr>],
          sample_coupon\<lparr>c_status := ''used'', usedAt := Some 10, usedBy := Some ''alice''\<rparr>)"
  using sample_first_redeem by (simp only: sample_tables)

lemma sample_amount: "amount sample_coupon = 1000" "c_fuelType sample_coupon = ''petrol''"
  by (simp_all add: sample_coupon_def)

lemma sample_redeem_calls:
  "redeemCoupon (users sample_db) (coupons sample_db) (b_code (redeem_request ''alice'')) ''alice'' 10 =
     Inr ([sample_coupon\<lparr>c_status := ''used'', usedAt := Some 10, usedBy := Some ''alice''\<rparr>],
          sample_coupon\<lparr>c_status := ''used'', usedAt := Some 10, usedBy := Some ''alice''\<rparr>)"
  "redeemCoupon (users brimful_db) (coupons brimful_db) (b_code (redeem_request ''alice'')) ''alice'' 10 =
     Inr ([sample_coupon\<lparr>c_status := ''used'', usedAt := Some 10, usedBy := Some ''alice''\<rparr>],
          sample_coupon\<lparr>c_status := ''used'', usedAt := Some 10, usedBy := Some ''alice''\<rparr>)"
  using sample_first_redeem sample_brimful_redeem by (simp_all only: sample_authenticated)

lemma sample_credit_calls:
  "updateFuelBalance (users sample_db) (fuel_balances sample_db) ''alice''
      (c_fuelType (sample_coupon\<lparr>c_status := ''used'', usedAt := Some 10, usedBy := Some ''alice''\<rparr>))
      (number_of_decimal (amount
         (sample_coupon\<lparr>c_status := ''used'', usedAt := Some 10, usedBy := Some ''alice''\<rparr>))) 10
    = Inr ([(''alice'', ''petrol'') \<mapsto> \<lparr>balance = 1000, updatedAt = 10\<rparr>],
           \<lparr>balance = 1000, updatedAt = 10\<rparr>)"
  "updateFuelBalance (users brimful_db) (fuel_balances brimful_db) ''alice''
      (c_fuelType (sample_coupon\<lparr>c_status := ''used'', usedAt := Some 10, usedBy := Some ''alice''\<rparr>))
      (number_of_decimal (amount
         (sample_coupon\<lparr>c_status := ''used'', usedAt := Some 10, usedBy := Some ''alice''\<rparr>))) 10
    = Inl (DatabaseError NumericFieldOverflow)"
  using sample_credit by (simp_all add: sample_amount)

lemma sample_posts:
  "post_coupons_redeem 10 (redeem_request ''alice'') sample_db =
     (sample_db\<lparr>coupons :=
        [sample_coupon\<lparr>c_status := ''used'', usedAt := Some 10, usedBy := Some ''alice''\<rparr>],
        fuel_balances := [(''alice'', ''petrol'') \<mapsto> \<lparr>balance = 1000, updatedAt = 10\<rparr>]\<rparr>,
      \<lparr>status = 200, body = Some (coupon_json
        (sample_coupon\<lparr>c_status := ''used'', usedAt := Some 10, usedBy := Some ''alice''\<rparr>))\<rparr>)"
  "post_coupons_redeem 10 (redeem_request ''alice'') brimful_db =
     (brimful_db\<lparr>coupons :=
        [sample_coupon\<lparr>c_status := ''used'', usedAt := Some 10, usedBy := Some ''alice''\<rparr>]\<rparr>,
      bad_request (DatabaseError NumericFieldOverflow))"
  by (rule post_coupons_redeem_ok [OF sample_authenticated(1) sample_redeem_calls(1) sample_credit_calls(1)])
     (rule post_coupons_redeem_uncredited [OF sample_authenticated(1) sample_redeem_calls(2) sample_credit_calls(2)])

theorem redeem_twice_witness:
  "status (snd (post_coupons_redeem 10 (redeem_request ''alice'') sample_db)) = 200
   \<and> status (snd (post_coupons_redeem 11 (redeem_request ''bob'')
         (fst (post_coupons_redeem 10 (redeem_request ''alice'') sample_db)))) = 400
   \<and> balance_of (fuel_balances (fst (post_coupons_redeem 11 (redeem_request ''bob'')
         (fst (post_coupons_redeem 10 (redeem_request ''alice'') sample_db))))) ''alice'' ''petrol''
       = 1000"
proof -
  have b0: "balance_of (fuel_balances sample_db) ''alice'' ''petrol'' = 0"
    by (simp add: balance_of_def getFuelBalance_def sample_tables)
  from redeem_twice [where now' = 11, OF sample_first_redeem sample_authenticated(1,4)
      sample_authenticated(2,4) surjective_pairing surjective_pairing]
  show ?thesis by (auto simp: sample_amount sample_credit b0)
qed

text \<open>
  C1 as stated fails: with the redeemer's petrol balance at the column's maximum,
  \<open>redeemCoupon\<close> succeeds and the coupon is marked used, the credit is refused for
  numeric overflow, the answer is 400 and the balance reflects no credit.
\<close>

theorem redeemed_without_credit:
  "redeemCoupon (users brimful_db) (coupons brimful_db) ''FUEL-PET-10L-ABCD12'' ''alice'' 10 =
     Inr ([sample_coupon\<lparr>c_status := ''used'', usedAt := Some 10, usedBy := Some ''alice''\<rparr>],
          sample_coupon\<lparr>c_status := ''used'', usedAt := Some 10, usedBy := Some ''alice''\<rparr>)
   \<and> post_coupons_redeem 10 (redeem_request ''alice'') brimful_db =
       (brimful_db\<lparr>coupons :=
          [sample_coupon\<lparr>c_status := ''used'', usedAt := Some 10, usedBy := Some ''alice''\<rparr>]\<rparr>,
        bad_request (DatabaseError NumericFieldOverflow))
   \<and> status (bad_request (DatabaseError NumericFieldOverflow)) = 400
   \<and> balance_of (fuel_balances brimful_db) ''alice'' ''petrol'' = 9999999999
   \<and> balance_of (fuel_balances (fst (post_coupons_redeem 10 (redeem_request ''alice'') brimful_db)))
        ''alice'' ''petrol'' = 9999999999"
proof -
  have b: "balance_of (fuel_balances brimful_db) ''alice'' ''petrol'' = 9999999999"
    by (simp add: balance_of_def getFuelBalance_def sample_tables)
  from sample_posts(2) sample_brimful_redeem b
  show ?thesis by (simp add: bad_request_status)
qed

section \<open>The two writes of a redemption\<close>





section \<open>Expiry dates\<close>

lemma select_first_None_iff:
  "select_first p rows = None \<longleftrightarrow> \<not> list_ex p rows"
  by (cases "filter p rows") (auto simp: select_first_def list_ex_iff filter_empty_conv dest: filter_eq_ConsD)

lemma select_first_Some:
  "select_first p rows = Some r \<Longrightarrow> r \<in> set rows \<and> p r"
  by (cases "filter p rows") (auto simp: select_first_def dest: filter_eq_ConsD)

lemma filter_expiry:
  "filter (\<lambda>c. code c = k \<and> c_status c = ''active'') (map (expiryDate_update g) cs)
   = map (expiryDate_update g) (filter (\<lambda>c. code c = k \<and> c_status c = ''active'') cs)"
  by (induction cs) simp_all

lemma list_ex_expiry:
  "list_ex (\<lambda>c. (code c = k \<and> c_status c = ''active'') \<and> usedBy c \<noteq> Some u)
     (map (expiryDate_update g) cs)
   = list_ex (\<lambda>c. (code c = k \<and> c_status c = ''active'') \<and> usedBy c \<noteq> Some u) cs"
  by (induction cs) simp_all

lemma redeemCoupon_expiry:
  "redeemCoupon us (map (expiryDate_update g) cs) k u now
     = map_sum id (\<lambda>(cs', c). (map (expiryDate_update g) cs', expiryDate_update g c))
         (redeemCoupon us cs k u now)"
proof (cases "list_ex (\<lambda>c. (code c = k \<and> c_status c = ''active'') \<and> usedBy c \<noteq> Some u) cs
    \<and> u \<notin> set us")
  case True
  then have a: "list_ex (\<lambda>c. (code c = k \<and> c_status c = ''active'') \<and> usedBy c \<noteq> Some u) cs"
    and b: "u \<notin> set us" by blast+
  from a have a': "list_ex (\<lambda>c. (code c = k \<and> c_status c = ''active'') \<and> usedBy c \<noteq> Some u)
     (map (expiryDate_update g) cs)" by (simp only: list_ex_expiry)
  show ?thesis by (simp only: redeemCoupon_refused [OF a b] redeemCoupon_refused [OF a' b]) simp
next
  case False
  then have ok: "u \<in> set us \<or>
      \<not> list_ex (\<lambda>c. (code c = k \<and> c_status c = ''active'') \<and> usedBy c \<noteq> Some u) cs" by blast
  then have ok': "u \<in> set us \<or>
      \<not> list_ex (\<lambda>c. (code c = k \<and> c_status c = ''active'') \<and> usedBy c \<noteq> Some u)
          (map (expiryDate_update g) cs)" by (simp only: list_ex_expiry)
  show ?thesis
  proof (cases "filter (\<lambda>c. code c = k \<and> c_status c = ''active'') cs")
    case Nil
    then have "filter (\<lambda>c. code c = k \<and> c_status c = ''active'') (map (expiryDate_update g) cs) = []"
      by (simp only: filter_expiry) simp
    with Nil show ?thesis by (simp only: redeemCoupon_none) simp
  next
    case (Cons c0 rest)
    then have "filter (\<lambda>c. code c = k \<and> c_status c = ''active'') (map (expiryDate_update g) cs)
        = expiryDate_update g c0 # map (expiryDate_update g) rest"
      by (simp only: filter_expiry) simp
    from redeemCoupon_Cons [OF this ok'] redeemCoupon_Cons [OF Cons ok]
    show ?thesis by (simp add: comp_def)
  qed
qed

lemma redeemCoupon_fails_iff:
  "isl (redeemCoupon us cs k u now) \<longleftrightarrow>
     \<not> list_ex (\<lambda>c. code c = k \<and> c_status c = ''active'') cs
     \<or> (u \<notin> set us \<and>
         list_ex (\<lambda>c. (code c = k \<and> c_status c = ''active'') \<and> usedBy c \<noteq> Some u) cs)"
proof (cases "list_ex (\<lambda>c. (code c = k \<and> c_status c = ''active'') \<and> usedBy c \<noteq> Some u) cs
    \<and> u \<notin> set us")
  case True
  then have a: "list_ex (\<lambda>c. (code c = k \<and> c_status c = ''active'') \<and> usedBy c \<noteq> Some u) cs"
    and b: "u \<notin> set us" by blast+
  from True show ?thesis by (simp only: redeemCoupon_refused [OF a b]) simp
next
  case False
  then have ok: "u \<in> set us \<or>
      \<not> list_ex (\<lambda>c. (code c = k \<and> c_status c = ''active'') \<and> usedBy c \<noteq> Some u) cs" by blast
  show ?thesis
  proof (cases "filter (\<lambda>c. code c = k \<and> c_status c = ''active'') cs")
    case Nil
    then have "\<not> list_ex (\<lambda>c. code c = k \<and> c_status c = ''active'') cs"
      by (simp add: list_ex_iff filter_empty_conv)
    with Nil show ?thesis by (simp only: redeemCoupon_none) simp
  next
    case (Cons c0 rest)
    then have "c0 \<in> set (filter (\<lambda>c. code c = k \<and> c_status c = ''active'') cs)" by simp
    then have "list_ex (\<lambda>c. code c = k \<and> c_status c = ''active'') cs"
      unfolding list_ex_iff by (simp only: set_filter) blast
    with False show ?thesis by (simp only: redeemCoupon_Cons [OF Cons ok]) auto
  qed
qed

lemma filter_key_singleton:
  assumes "distinct (map f xs)" and "x \<in> set xs"
  shows "filter (\<lambda>y. f y = f x) xs = [x]"
  using assms
proof (induction xs)
  case Nil
  then show ?case by simp
next
  case (Cons a xs)
  show ?case
  proof (cases "a = x")
    case True
    with Cons.prems(1) have "f x \<notin> f ` set xs" by simp
    then have "\<forall>y \<in> set xs. f y \<noteq> f x" by (metis imageI)
    then have "filter (\<lambda>y. f y = f x) xs = []" by (simp add: filter_empty_conv)
    with True show ?thesis by simp
  next
    case False
    with Cons.prems have x: "x \<in> set xs" and d: "distinct (map f xs)" and "f a \<notin> f ` set xs"
      by auto
    then have "f a \<noteq> f x" by auto
    with Cons.IH [OF d x] show ?thesis by simp
  qed
qed

lemma redeemCoupon_unique:
  assumes d: "distinct (map code cs)" and c: "c \<in> set cs" "c_status c = ''active''"
    and u: "u \<in> set us"
  shows "redeemCoupon us cs (code c) u now =
     Inr (map (\<lambda>x. if x = c then c\<lparr>c_status := ''used'', usedAt := Some now, usedBy := Some u\<rparr> else x) cs,
          c\<lparr>c_status := ''used'', usedAt := Some now, usedBy := Some u\<rparr>)"
proof -
  have one: "filter (\<lambda>x. code x = code c) cs = [c]"
    by (rule filter_key_singleton [OF d c(1)])
  have "filter (\<lambda>x. code x = code c \<and> c_status x = ''active'') cs
      = filter (\<lambda>x. c_status x = ''active'') (filter (\<lambda>x. code x = code c) cs)"
    by (simp add: conj_commute)
  also have "\<dots> = [c]" unfolding one using c(2) by simp
  finally have f: "filter (\<lambda>x. code x = code c \<and> c_status x = ''active'') cs = [c]" .
  have same: "(code x = code c \<and> c_status x = ''active'') \<longleftrightarrow> x = c" if "x \<in> set cs" for x
  proof
    assume "code x = code c \<and> c_status x = ''active''"
    with that have "x \<in> set (filter (\<lambda>x. code x = code c) cs)" by simp
    then show "x = c" unfolding one by simp
  next
    assume "x = c"
    with c(2) show "code x = code c \<and> c_status x = ''active''" by simp
  qed
  have "map (\<lambda>x. if code x = code c \<and> c_status x = ''active''
                    then x\<lparr>c_status := ''used'', usedAt := Some now, usedBy := Some u\<rparr> else x) cs
      = map (\<lambda>x. if x = c then c\<lparr>c_status := ''used'', usedAt := Some now, usedBy := Some u\<rparr> else x) cs"
    by (rule map_cong [OF refl]) (simp add: same)
  with redeemCoupon_Cons [OF f disjI1 [OF u], of now] show ?thesis by (simp only:)
qed

text \<open>
  C9, as the code has it. \<open>redeemCoupon\<close> never looks at a coupon's \<open>expiryDate\<close>. It
  fails exactly when no stored coupon has the code and the status \<^verbatim>\<open>active\<close>, with the
  message \<^verbatim>\<open>Coupon not found or already used\<close>, or when such a coupon would get a
  redeemer that is the id of no user, which the foreign key of \<^verbatim>\<open>coupons.used_by\<close>
  refuses. With unique codes, an active coupon, whatever its expiry date, and a redeemer
  that is a user, the call returns that coupon marked used, with the time and the
  redeemer, and the table with that row rewritten and no other. Rewriting the expiry
  dates of the table in any way changes nothing of the outcome but those dates.
\<close>

theorem redeem_ignores_expiry:
  "(isl (redeemCoupon us cs k u now) \<longleftrightarrow>
      \<not> list_ex (\<lambda>c. code c = k \<and> c_status c = ''active'') cs
      \<or> (u \<notin> set us \<and>
          list_ex (\<lambda>c. (code c = k \<and> c_status c = ''active'') \<and> usedBy c \<noteq> Some u) cs))
   \<and> (\<not> list_ex (\<lambda>c. code c = k \<and> c_status c = ''active'') cs \<longrightarrow>
        redeemCoupon us cs k u now = Inl (Error ''Coupon not found or already used''))
   \<and> (distinct (map code cs) \<and> c \<in> set cs \<and> code c = k \<and> c_status c = ''active'' \<and>
       u \<in> set us \<longrightarrow>
        redeemCoupon us cs k u now =
          Inr (map (\<lambda>x. if x = c
                         then c\<lparr>c_status := ''used'', usedAt := Some now, usedBy := Some u\<rparr>
                         else x) cs,
               c\<lparr>c_status := ''used'', usedAt := Some now, usedBy := Some u\<rparr>))
   \<and> redeemCoupon us (map (expiryDate_update g) cs) k u now
       = map_sum id (\<lambda>(cs', c). (map (expiryDate_update g) cs', expiryDate_update g c))
           (redeemCoupon us cs k u now)"
proof -
  have a: "redeemCoupon us cs k u now = Inl (Error ''Coupon not found or already used'')"
    if "\<not> list_ex (\<lambda>c. code c = k \<and> c_status c = ''active'') cs"
  proof -
    from that have "filter (\<lambda>c. code c = k \<and> c_status c = ''active'') cs = []"
      by (simp add: list_ex_iff filter_empty_conv)
    then show ?thesis by (rule redeemCoupon_none)
  qed
  have b: "redeemCoupon us cs k u now =
          Inr (map (\<lambda>x. if x = c
                         then c\<lparr>c_status := ''used'', usedAt := Some now, usedBy := Some u\<rparr>
                         else x) cs,
               c\<lparr>c_status := ''used'', usedAt := Some now, usedBy := Some u\<rparr>)"
    if "distinct (map code cs) \<and> c \<in> set cs \<and> code c = k \<and> c_status c = ''active'' \<and>
       u \<in> set us"
    using that redeemCoupon_unique [of cs c u us now] by blast
  from a b redeemCoupon_fails_iff [of us cs k u now] redeemCoupon_expiry [of us g cs k u now]
  show ?thesis by blast
qed

theorem redeem_ignores_expiry_witness:
  "c_status sample_coupon = ''active'' \<and> expiryDate sample_coupon = Some 5 \<and> (5 :: nat) < 10
   \<and> redeemCoupon (users sample_db) (coupons sample_db) ''FUEL-PET-10L-ABCD12'' ''alice'' 10
      = Inr ([sample_coupon\<lparr>c_status := ''used'', usedAt := Some 10, usedBy := Some ''alice''\<rparr>],
             sample_coupon\<lparr>c_status := ''used'', usedAt := Some 10, usedBy := Some ''alice''\<rparr>)
   \<and> redeemCoupon (users sample_db) (coupons sample_db) ''FUEL-DSL-10L-ABCD12'' ''alice'' 10
      = Inl (Error ''Coupon not found or already used'')"
proof -
  have h: "distinct (map code (coupons sample_db))" "sample_coupon \<in> set (coupons sample_db)"
    "code sample_coupon = ''FUEL-PET-10L-ABCD12''"
    "c_status sample_coupon = ''active''" "expiryDate sample_coupon = Some 5" "(5 :: nat) < 10"
    "''alice'' \<in> set (users sample_db)"
    by (simp_all add: sample_tables sample_coupon_def)
  have n: "\<not> list_ex (\<lambda>c. code c = ''FUEL-DSL-10L-ABCD12'' \<and> c_status c = ''active'') (coupons sample_db)"
    by (simp add: sample_tables sample_coupon_def)
  from redeem_ignores_expiry [of "users sample_db" "coupons sample_db" "''FUEL-PET-10L-ABCD12''"
      "''alice''" 10 sample_coupon id]
    redeem_ignores_expiry [of "users sample_db" "coupons sample_db" "''FUEL-DSL-10L-ABCD12''"
      "''alice''" 10 sample_coupon id] h n
  show ?thesis by (simp add: sample_tables)
qed

text \<open>
  C9 as stated fails: the sample coupon is active and has the code, yet its redemption
  by an id that no user has is refused by the foreign key.
\<close>

theorem ghost_cannot_redeem:
  "c_status sample_coupon = ''active'' \<and> code sample_coupon = ''FUEL-PET-10L-ABCD12''
   \<and> coupons sample_db = [sample_coupon] \<and> ''ghost'' \<notin> set (users sample_db)
   \<and> redeemCoupon (users sample_db) (coupons sample_db) ''FUEL-PET-10L-ABCD12'' ''ghost'' 10
      = Inl (DatabaseError (ForeignKeyViolation ''coupons'' ''coupons_used_by_users_id_fk''))"
proof -
  have a: "list_ex (\<lambda>c. (code c = ''FUEL-PET-10L-ABCD12'' \<and> c_status c = ''active'') \<and>
      usedBy c \<noteq> Some ''ghost'') (coupons sample_db)"
    by (simp add: sample_tables sample_coupon_def)
  have b: "''ghost'' \<notin> set (users sample_db)" by (simp add: sample_tables)
  from redeemCoupon_refused [OF a b] b show ?thesis
    by (simp add: sample_tables sample_coupon_def)
qed

section \<open>Coupon codes\<close>

lemma getCouponByCode_None_iff:
  "getCouponByCode cs k = None \<longleftrightarrow> k \<notin> code ` set cs"
  by (auto simp: getCouponByCode_def select_first_None_iff list_ex_iff)

lemma unique_code_loop_Some:
  "unique_code_loop cs p amt draws = Some k \<Longrightarrow>
     getCouponByCode cs k = None \<and> k \<in> coupon_code p amt ` set draws"
  by (induction draws) (auto simp: Let_def split: option.splits)

lemma unique_code_loop_returns:
  "unique_code_loop cs p amt draws \<noteq> None \<longleftrightarrow>
     list_ex (\<lambda>draw. getCouponByCode cs (coupon_code p amt draw) = None) draws"
  by (induction draws) (auto simp: Let_def split: option.splits)

text \<open>
  C4. Whatever the coupon table holds, a code that \<open>generateUniqueCouponCode\<close> returns
  is the code of no stored coupon, of any status: the loop returns a candidate only
  when \<open>getCouponByCode\<close> found nothing for it. It does return as soon as one draw
  yields an unused candidate, and only then.
\<close>

theorem generated_code_unused:
  "(generateUniqueCouponCode cs fuelType amt draws = Some k \<longrightarrow>
      getCouponByCode cs k = None \<and> k \<notin> code ` set cs)
   \<and> (generateUniqueCouponCode cs fuelType amt draws \<noteq> None \<longleftrightarrow>
        list_ex (\<lambda>draw. getCouponByCode cs
           (coupon_code (if fuelType = ''petrol'' then ''PET'' else ''DSL'') amt draw) = None) draws)"
  unfolding generateUniqueCouponCode_def
  using unique_code_loop_Some [of cs _ amt draws k] unique_code_loop_returns [of cs _ amt draws]
  by (simp only: getCouponByCode_None_iff) blast

theorem generated_code_unused_witness:
  "generateUniqueCouponCode (coupons sample_db) ''petrol'' 1000 [''0.abcd12k9'', ''0.7x2mq0c4d'']
     = Some ''FUEL-PET-10L-7X2MQ0''
   \<and> getCouponByCode (coupons sample_db) ''FUEL-PET-10L-ABCD12'' = Some sample_coupon
   \<and> getCouponByCode (coupons sample_db) ''FUEL-PET-10L-7X2MQ0'' = None"
proof -
  have g: "generateUniqueCouponCode (coupons sample_db) ''petrol'' 1000 [''0.abcd12k9'', ''0.7x2mq0c4d'']
     = Some ''FUEL-PET-10L-7X2MQ0''"
    by code_simp
  have s: "getCouponByCode (coupons sample_db) ''FUEL-PET-10L-ABCD12'' = Some sample_coupon"
    by (simp add: getCouponByCode_def select_first_def sample_db_def sample_coupon_def)
  from g s generated_code_unused [of "coupons sample_db" "''petrol''" 1000
      "[''0.abcd12k9'', ''0.7x2mq0c4d'']" "''FUEL-PET-10L-7X2MQ0''"]
  show ?thesis by blast
qed

text \<open>
  C5. The code is \<^verbatim>\<open>FUEL-\<close>, the tag \<^verbatim>\<open>PET\<close> or \<^verbatim>\<open>DSL\<close>, the amount followed by \<^verbatim>\<open>L-\<close>, and
  the random part, meant to be six upper-case alphanumeric characters. The random part
  is what \<^verbatim>\<open>substring(2, 8)\<close> finds behind the \<^verbatim>\<open>0.\<close> of the draw, so a draw with fewer
  than six digits gives fewer: when \<^verbatim>\<open>Math.random()\<close> is 0.5 the draw is \<^verbatim>\<open>0.i\<close> and the
  random part is the single character \<^verbatim>\<open>I\<close>.
\<close>

theorem short_draw_short_code:
  "generateUniqueCouponCode [] ''petrol'' 1000 [''0.i''] = Some ''FUEL-PET-10L-I''
   \<and> length (randomPart ''0.i'') = 1"
  by code_simp

lemma upper_char_alnum: "is_base36_digit c \<Longrightarrow> is_upper_alnum (upper_char c)"
  by (auto simp: is_base36_digit_def is_upper_alnum_def upper_char_def Let_def)

lemma randomPart_shape:
  "length (randomPart draw) = min 6 (length draw - 2)"
  "list_all is_base36_digit (drop 2 draw) \<Longrightarrow> list_all is_upper_alnum (randomPart draw)"
  by (auto simp: randomPart_def substring_def toUpperCase_def list_all_iff upper_char_alnum
      dest: in_set_takeD)

lemma long_draw_code:
  "generateUniqueCouponCode [] ''petrol'' 1000 [''0.4fzyo82mvyr''] = Some ''FUEL-PET-10L-4FZYO8''"
  by code_simp

section \<open>More on conditional updates\<close>

lemma update_where_member:
  assumes "r \<in> set rows" and "p r"
  shows "\<exists>r0. r0 \<in> set rows \<and> p r0 \<and> snd (update_where p f rows) = Some (f r0)"
proof (cases "filter p rows")
  case Nil
  with assms show ?thesis by (auto simp: filter_empty_conv)
next
  case (Cons r0 rest)
  then have "r0 \<in> set (filter p rows)" by simp
  then have "r0 \<in> set rows \<and> p r0" by simp
  with update_where_Cons [OF Cons, of f] show ?thesis by auto
qed

lemma update_where_table:
  "fst (update_where p f rows) = map (\<lambda>r. if p r then f r else r) rows"
  by (simp add: update_where_def)

lemma update_where_others:
  assumes "\<And>r. p (f r) = p r"
  shows "filter (\<lambda>r. \<not> p r) (fst (update_where p f rows)) = filter (\<lambda>r. \<not> p r) rows"
  unfolding update_where_table using assms by (induction rows) simp_all


section \<open>Transaction status\<close>




section \<open>Vehicle approval\<close>

lemma approveVehicle_known_admin:
  "adminId \<in> set us \<Longrightarrow>
   approveVehicle us vs vehicleId adminId now =
     Inr (update_where (\<lambda>v. v_id v = vehicleId)
            (\<lambda>v. v\<lparr>v_status := Approved, approvedAt := Some now, approvedBy := Some adminId\<rparr>) vs)"
  by (simp add: approveVehicle_def)

lemma rejectVehicle_known_admin:
  "adminId \<in> set us \<Longrightarrow>
   rejectVehicle us vs vehicleId adminId reason =
     Inr (update_where (\<lambda>v. v_id v = vehicleId)
            (\<lambda>v. case reason of
                    None \<Rightarrow> v\<lparr>v_status := Rejected, approvedBy := Some adminId\<rparr>
                  | Some given \<Rightarrow>
                      v\<lparr>v_status := Rejected, approvedBy := Some adminId,
                        rejectionReason := Some given\<rparr>) vs)"
  by (simp add: rejectVehicle_def)

lemma vehicle_unknown_admin:
  assumes "v \<in> set vs" and "v_id v = vehicleId" and "approvedBy v \<noteq> Some adminId"
    and "adminId \<notin> set us"
  shows "approveVehicle us vs vehicleId adminId now =
           Inl (DatabaseError (ForeignKeyViolation ''vehicles'' ''vehicles_approved_by_users_id_fk''))"
    and "rejectVehicle us vs vehicleId adminId reason =
           Inl (DatabaseError (ForeignKeyViolation ''vehicles'' ''vehicles_approved_by_users_id_fk''))"
proof -
  from assms(1-3) have "list_ex (\<lambda>v. v_id v = vehicleId \<and> approvedBy v \<noteq> Some adminId) vs"
    unfolding list_ex_iff by blast
  with assms(4) show "approveVehicle us vs vehicleId adminId now =
           Inl (DatabaseError (ForeignKeyViolation ''vehicles'' ''vehicles_approved_by_users_id_fk''))"
    and "rejectVehicle us vs vehicleId adminId reason =
           Inl (DatabaseError (ForeignKeyViolation ''vehicles'' ''vehicles_approved_by_users_id_fk''))"
    by (simp_all add: approveVehicle_def rejectVehicle_def)
qed

lemma update_where_pair:
  assumes "r \<in> set rows" and "p r" and "\<And>r. p (f r) = p r"
  shows "\<exists>rows' r0. update_where p f rows = (rows', Some (f r0)) \<and> r0 \<in> set rows \<and> p r0 \<and>
           (\<forall>x \<in> set rows'. p x \<longrightarrow> (\<exists>x0 \<in> set rows. p x0 \<and> x = f x0)) \<and>
           filter (\<lambda>x. \<not> p x) rows' = filter (\<lambda>x. \<not> p x) rows \<and>
           length rows' = length rows"
proof -
  from update_where_member [of r rows p f] assms(1,2) obtain r0
    where r0: "r0 \<in> set rows" "p r0" "snd (update_where p f rows) = Some (f r0)" by blast
  have t: "fst (update_where p f rows) = map (\<lambda>r. if p r then f r else r) rows"
    by (rule update_where_table)
  have a: "\<forall>x \<in> set (fst (update_where p f rows)). p x \<longrightarrow> (\<exists>x0 \<in> set rows. p x0 \<and> x = f x0)"
    unfolding t using assms(3) by auto
  have b: "filter (\<lambda>x. \<not> p x) (fst (update_where p f rows)) = filter (\<lambda>x. \<not> p x) rows"
    by (rule update_where_others) (rule assms(3))
  have c: "length (fst (update_where p f rows)) = length rows" unfolding t by simp
  have "update_where p f rows = (fst (update_where p f rows), Some (f r0))"
    using r0(3) by (simp add: prod_eq_iff)
  with r0 a b c show ?thesis by blast
qed

text \<open>
  C6, as the code has it. \<open>approveVehicle\<close> and \<open>rejectVehicle\<close> do not look at the
  current status. For a stored vehicle id and an approver that is a user, whatever the
  status of the vehicle, the call returns the rewritten row, every row with that id
  ends approved (with time and approver) or rejected (with approver, and with the
  reason when one is given), and the other rows stay as they were. For an approver
  that is the id of no user, the foreign key of \<^verbatim>\<open>vehicles.approved_by\<close> refuses the
  update.
\<close>

theorem approve_reject_any_status:
  assumes "v \<in> set vs" and "v_id v = vehicleId"
  shows "(adminId \<in> set us \<longrightarrow>
          (\<exists>vs' v0. approveVehicle us vs vehicleId adminId now =
               Inr (vs', Some (v0\<lparr>v_status := Approved, approvedAt := Some now,
                                  approvedBy := Some adminId\<rparr>))
             \<and> v0 \<in> set vs \<and> v_id v0 = vehicleId
             \<and> (\<forall>x \<in> set vs'. v_id x = vehicleId \<longrightarrow>
                   v_status x = Approved \<and> approvedAt x = Some now \<and> approvedBy x = Some adminId)
             \<and> filter (\<lambda>x. v_id x \<noteq> vehicleId) vs' = filter (\<lambda>x. v_id x \<noteq> vehicleId) vs
             \<and> length vs' = length vs)
          \<and> (\<exists>vs' v0. rejectVehicle us vs vehicleId adminId reason =
               Inr (vs', Some (v0\<lparr>v_status := Rejected, approvedBy := Some adminId,
                                  rejectionReason :=
                                    (case reason of None \<Rightarrow> rejectionReason v0
                                     | Some given \<Rightarrow> Some given)\<rparr>))
             \<and> v0 \<in> set vs \<and> v_id v0 = vehicleId
             \<and> (\<forall>x \<in> set vs'. v_id x = vehicleId \<longrightarrow>
                   v_status x = Rejected \<and> approvedBy x = Some adminId \<and>
                   (\<forall>given. reason = Some given \<longrightarrow> rejectionReason x = Some given))
             \<and> filter (\<lambda>x. v_id x \<noteq> vehicleId) vs' = filter (\<lambda>x. v_id x \<noteq> vehicleId) vs
             \<and> length vs' = length vs))
       \<and> (adminId \<notin> set us \<and> approvedBy v \<noteq> Some adminId \<longrightarrow>
            approveVehicle us vs vehicleId adminId now =
              Inl (DatabaseError (ForeignKeyViolation ''vehicles'' ''vehicles_approved_by_users_id_fk''))
            \<and> rejectVehicle us vs vehicleId adminId reason =
              Inl (DatabaseError (ForeignKeyViolation ''vehicles'' ''vehicles_approved_by_users_id_fk'')))"
proof -
  have a: "\<exists>vs' v0. approveVehicle us vs vehicleId adminId now =
               Inr (vs', Some (v0\<lparr>v_status := Approved, approvedAt := Some now,
                                  approvedBy := Some adminId\<rparr>))
             \<and> v0 \<in> set vs \<and> v_id v0 = vehicleId
             \<and> (\<forall>x \<in> set vs'. v_id x = vehicleId \<longrightarrow>
                   v_status x = Approved \<and> approvedAt x = Some now \<and> approvedBy x = Some adminId)
             \<and> filter (\<lambda>x. v_id x \<noteq> vehicleId) vs' = filter (\<lambda>x. v_id x \<noteq> vehicleId) vs
             \<and> length vs' = length vs"
    if admin: "adminId \<in> set us"
  proof -
    have pres: "v_id (x\<lparr>v_status := Approved, approvedAt := Some now, approvedBy := Some adminId\<rparr>)
        = vehicleId \<longleftrightarrow> v_id x = vehicleId" for x :: vehicle
      by simp
    from update_where_pair [of v vs "\<lambda>v. v_id v = vehicleId"
        "\<lambda>v. v\<lparr>v_status := Approved, approvedAt := Some now, approvedBy := Some adminId\<rparr>",
        OF assms pres]
    obtain vs' v0 where
      "update_where (\<lambda>v. v_id v = vehicleId)
         (\<lambda>v. v\<lparr>v_status := Approved, approvedAt := Some now, approvedBy := Some adminId\<rparr>) vs
        = (vs', Some (v0\<lparr>v_status := Approved, approvedAt := Some now, approvedBy := Some adminId\<rparr>))"
      "v0 \<in> set vs" "v_id v0 = vehicleId"
      "\<forall>x \<in> set vs'. v_id x = vehicleId \<longrightarrow>
         (\<exists>x0 \<in> set vs. v_id x0 = vehicleId \<and>
            x = x0\<lparr>v_status := Approved, approvedAt := Some now, approvedBy := Some adminId\<rparr>)"
      "filter (\<lambda>x. v_id x \<noteq> vehicleId) vs' = filter (\<lambda>x. v_id x \<noteq> vehicleId) vs"
      "length vs' = length vs"
      by blast
    moreover have "v_status x = Approved \<and> approvedAt x = Some now \<and> approvedBy x = Some adminId"
      if "\<exists>x0 \<in> set vs. v_id x0 = vehicleId \<and>
            x = x0\<lparr>v_status := Approved, approvedAt := Some now, approvedBy := Some adminId\<rparr>"
      for x
    proof -
      from that obtain x0
        where "x = x0\<lparr>v_status := Approved, approvedAt := Some now, approvedBy := Some adminId\<rparr>"
        by blast
      then show ?thesis by simp
    qed
    ultimately have "\<forall>x \<in> set vs'. v_id x = vehicleId \<longrightarrow>
                   v_status x = Approved \<and> approvedAt x = Some now \<and> approvedBy x = Some adminId"
      by blast
    moreover note \<open>update_where (\<lambda>v. v_id v = vehicleId)
         (\<lambda>v. v\<lparr>v_status := Approved, approvedAt := Some now, approvedBy := Some adminId\<rparr>) vs
        = (vs', Some (v0\<lparr>v_status := Approved, approvedAt := Some now, approvedBy := Some adminId\<rparr>))\<close>
      \<open>v0 \<in> set vs\<close> \<open>v_id v0 = vehicleId\<close>
      \<open>filter (\<lambda>x. v_id x \<noteq> vehicleId) vs' = filter (\<lambda>x. v_id x \<noteq> vehicleId) vs\<close>
      \<open>length vs' = length vs\<close>
    ultimately show ?thesis
      unfolding approveVehicle_known_admin [OF admin] by blast
  qed
  have b: "\<exists>vs' v0. rejectVehicle us vs vehicleId adminId reason =
               Inr (vs', Some (v0\<lparr>v_status := Rejected, approvedBy := Some adminId,
                                  rejectionReason :=
                                    (case reason of None \<Rightarrow> rejectionReason v0
                                     | Some given \<Rightarrow> Some given)\<rparr>))
             \<and> v0 \<in> set vs \<and> v_id v0 = vehicleId
             \<and> (\<forall>x \<in> set vs'. v_id x = vehicleId \<longrightarrow>
                   v_status x = Rejected \<and> approvedBy x = Some adminId \<and>
                   (\<forall>given. reason = Some given \<longrightarrow> rejectionReason x = Some given))
             \<and> filter (\<lambda>x. v_id x \<noteq> vehicleId) vs' = filter (\<lambda>x. v_id x \<noteq> vehicleId) vs
             \<and> length vs' = length vs"
    if admin: "adminId \<in> set us"
  proof -
    define f where "f = (\<lambda>v::vehicle. case reason of
                    None \<Rightarrow> v\<lparr>v_status := Rejected, approvedBy := Some adminId\<rparr>
                  | Some given \<Rightarrow>
                      v\<lparr>v_status := Rejected, approvedBy := Some adminId,
                        rejectionReason := Some given\<rparr>)"
    have f: "f x = x\<lparr>v_status := Rejected, approvedBy := Some adminId,
                      rejectionReason :=
                        (case reason of None \<Rightarrow> rejectionReason x | Some given \<Rightarrow> Some given)\<rparr>"
      and fid: "v_id (f x) = v_id x" for x
      by (simp_all add: f_def split: option.splits)
    have pres: "v_id (f x) = vehicleId \<longleftrightarrow> v_id x = vehicleId" for x
      by (simp only: fid)
    from update_where_pair [of v vs "\<lambda>v. v_id v = vehicleId" f, OF assms pres]
    obtain vs' v0 where
      "update_where (\<lambda>v. v_id v = vehicleId) f vs = (vs', Some (f v0))"
      "v0 \<in> set vs" "v_id v0 = vehicleId"
      "\<forall>x \<in> set vs'. v_id x = vehicleId \<longrightarrow> (\<exists>x0 \<in> set vs. v_id x0 = vehicleId \<and> x = f x0)"
      "filter (\<lambda>x. v_id x \<noteq> vehicleId) vs' = filter (\<lambda>x. v_id x \<noteq> vehicleId) vs"
      "length vs' = length vs"
      by blast
    moreover have "v_status x = Rejected \<and> approvedBy x = Some adminId \<and>
                   (\<forall>given. reason = Some given \<longrightarrow> rejectionReason x = Some given)"
      if "\<exists>x0 \<in> set vs. v_id x0 = vehicleId \<and> x = f x0" for x
    proof -
      from that obtain x0 where "x = f x0" by blast
      then show ?thesis by (simp add: f)
    qed
    ultimately have "\<forall>x \<in> set vs'. v_id x = vehicleId \<longrightarrow>
                   v_status x = Rejected \<and> approvedBy x = Some adminId \<and>
                   (\<forall>given. reason = Some given \<longrightarrow> rejectionReason x = Some given)"
      by blast
    moreover note \<open>update_where (\<lambda>v. v_id v = vehicleId) f vs = (vs', Some (f v0))\<close>
      \<open>v0 \<in> set vs\<close> \<open>v_id v0 = vehicleId\<close>
      \<open>filter (\<lambda>x. v_id x \<noteq> vehicleId) vs' = filter (\<lambda>x. v_id x \<noteq> vehicleId) vs\<close>
      \<open>length vs' = length vs\<close>
    ultimately show ?thesis
      unfolding rejectVehicle_known_admin [OF admin] f_def [symmetric] by (simp only: f) blast
  qed
  have c: "approveVehicle us vs vehicleId adminId now =
              Inl (DatabaseError (ForeignKeyViolation ''vehicles'' ''vehicles_approved_by_users_id_fk''))
            \<and> rejectVehicle us vs vehicleId adminId reason =
              Inl (DatabaseError (ForeignKeyViolation ''vehicles'' ''vehicles_approved_by_users_id_fk''))"
    if "adminId \<notin> set us \<and> approvedBy v \<noteq> Some adminId"
  proof -
    from that have x: "approvedBy v \<noteq> Some adminId" and y: "adminId \<notin> set us" by blast+
    from vehicle_unknown_admin(1) [OF assms x y] vehicle_unknown_admin(2) [OF assms x y]
    show ?thesis by (rule conjI)
  qed
  from a b c show ?thesis by blast
qed

theorem approve_reject_any_status_witness:
  "v_status sample_vehicle = Approved
   \<and> approveVehicle (users sample_db) (vehicles sample_db) ''v1'' ''admin2'' 10 =
       Inr ([sample_vehicle\<lparr>approvedAt := Some 10, approvedBy := Some ''admin2''\<rparr>],
            Some (sample_vehicle\<lparr>approvedAt := Some 10, approvedBy := Some ''admin2''\<rparr>))
   \<and> rejectVehicle (users sample_db) (vehicles sample_db) ''v1'' ''admin2'' None =
       Inr ([sample_vehicle\<lparr>v_status := Rejected, approvedBy := Some ''admin2''\<rparr>],
            Some (sample_vehicle\<lparr>v_status := Rejected, approvedBy := Some ''admin2''\<rparr>))
   \<and> isl (approveVehicle (users sample_db) (vehicles sample_db) ''v1'' ''ghost'' 10)
   \<and> isl (rejectVehicle (users sample_db) (vehicles sample_db) ''v1'' ''ghost'' (Some ''no papers''))"
proof -
  have m: "sample_vehicle \<in> set (vehicles sample_db)" "v_id sample_vehicle = ''v1''"
    by (simp_all add: sample_tables sample_vehicle_def)
  have u: "''admin2'' \<in> set (users sample_db)" "''ghost'' \<notin> set (users sample_db)"
    "approvedBy sample_vehicle \<noteq> Some ''ghost''"
    by (simp_all add: sample_tables sample_vehicle_def)
  have s: "v_status sample_vehicle = Approved" "rejectionReason sample_vehicle = None"
    by (simp_all add: sample_vehicle_def)
  have t: "approveVehicle (users sample_db) (vehicles sample_db) ''v1'' ''admin2'' 10 =
       Inr ([sample_vehicle\<lparr>approvedAt := Some 10, approvedBy := Some ''admin2''\<rparr>],
            Some (sample_vehicle\<lparr>approvedAt := Some 10, approvedBy := Some ''admin2''\<rparr>))"
    "rejectVehicle (users sample_db) (vehicles sample_db) ''v1'' ''admin2'' None =
       Inr ([sample_vehicle\<lparr>v_status := Rejected, approvedBy := Some ''admin2''\<rparr>],
            Some (sample_vehicle\<lparr>v_status := Rejected, approvedBy := Some ''admin2''\<rparr>))"
    by (simp_all add: approveVehicle_def rejectVehicle_def update_where_def sample_tables
        sample_vehicle_def)
  from approve_reject_any_status [OF m, of "''admin2''" "users sample_db" 10 None]
    approve_reject_any_status [OF m, of "''ghost''" "users sample_db" 10 "Some ''no papers''"] u s t
  show ?thesis by simp
qed

text \<open>
  C6 as stated fails: a vehicle that is already approved is rejected by \<open>rejectVehicle\<close>,
  and approved anew by \<open>approveVehicle\<close>, without any error, and its record changes.
\<close>

theorem reject_approved_vehicle:
  "v_status sample_vehicle = Approved
   \<and> rejectVehicle (users sample_db) [sample_vehicle] ''v1'' ''admin2'' (Some ''no papers'') =
       Inr ([sample_vehicle\<lparr>v_status := Rejected, approvedBy := Some ''admin2'',
                        rejectionReason := Some ''no papers''\<rparr>],
        Some (sample_vehicle\<lparr>v_status := Rejected, approvedBy := Some ''admin2'',
                        rejectionReason := Some ''no papers''\<rparr>))
   \<and> approveVehicle (users sample_db) [sample_vehicle] ''v1'' ''admin2'' 10 =
       Inr ([sample_vehicle\<lparr>approvedAt := Some 10, approvedBy := Some ''admin2''\<rparr>],
        Some (sample_vehicle\<lparr>approvedAt := Some 10, approvedBy := Some ''admin2''\<rparr>))"
  by (simp add: rejectVehicle_def approveVehicle_def update_where_def sample_vehicle_def sample_tables)

section \<open>Unknown vehicles\<close>

lemma find_route_vehicle:
  assumes "r_method req = PATCH" and "vehicleId \<noteq> []"
  shows "r_path req = [''api'', ''vehicles'', vehicleId, ''approve''] \<Longrightarrow>
           find_route registerRoutes req = Some (VehicleApprove, [vehicleId])"
    and "r_path req = [''api'', ''vehicles'', vehicleId, ''reject''] \<Longrightarrow>
           find_route registerRoutes req = Some (VehicleReject, [vehicleId])"
  using assms by (simp_all add: registerRoutes_def)

lemma unknown_id_no_rows:
  "vehicleId \<notin> v_id ` set vs \<Longrightarrow> filter (\<lambda>v. v_id v = vehicleId) vs = []"
  by (auto simp: filter_empty_conv)

text \<open>
  C10. For a vehicle id that no stored vehicle has, \<open>approveVehicle\<close> and
  \<open>rejectVehicle\<close> return no vehicle and change nothing, without an error, and the
  authenticated \<^verbatim>\<open>PATCH /api/vehicles/:id/approve\<close> and \<^verbatim>\<open>/reject\<close> answer 200 with
  an empty body.
\<close>

theorem unknown_vehicle_answers_200:
  assumes unknown: "vehicleId \<notin> v_id ` set (vehicles d)"
    and auth: "authenticated_id req = Some adminId"
    and patch: "r_method req = PATCH" and seg: "vehicleId \<noteq> []"
  shows "approveVehicle (users d) (vehicles d) vehicleId adminId now = Inr (vehicles d, None)
       \<and> rejectVehicle (users d) (vehicles d) vehicleId adminId reason = Inr (vehicles d, None)
       \<and> (r_path req = [''api'', ''vehicles'', vehicleId, ''approve''] \<longrightarrow>
            handle_request now req d = (d, \<lparr>status = 200, body = None\<rparr>))
       \<and> (r_path req = [''api'', ''vehicles'', vehicleId, ''reject''] \<longrightarrow>
            handle_request now req d = (d, \<lparr>status = 200, body = None\<rparr>))"
proof -
  from unknown have no: "\<not> list_ex (\<lambda>v. v_id v = vehicleId \<and> approvedBy v \<noteq> Some a) (vehicles d)" for a
    unfolding list_ex_iff by blast
  have a: "approveVehicle (users d) (vehicles d) vehicleId adminId now = Inr (vehicles d, None)"
    for adminId now
    unfolding approveVehicle_def
    by (simp only: no simp_thms if_False update_where_none [OF unknown_id_no_rows [OF unknown]])
  have r: "rejectVehicle (users d) (vehicles d) vehicleId adminId reason = Inr (vehicles d, None)"
    for adminId reason
    unfolding rejectVehicle_def
    by (simp only: no simp_thms if_False update_where_none [OF unknown_id_no_rows [OF unknown]])
  have ha: "handle_request now req d = (d, \<lparr>status = 200, body = None\<rparr>)"
    if "r_path req = [''api'', ''vehicles'', vehicleId, ''approve'']"
    using auth
    by (simp add: handle_request_def find_route_vehicle(1) [OF patch seg that] run_handler_def
        patch_vehicle_approve_def a)
  have hr: "handle_request now req d = (d, \<lparr>status = 200, body = None\<rparr>)"
    if "r_path req = [''api'', ''vehicles'', vehicleId, ''reject'']"
    using auth
    by (simp add: handle_request_def find_route_vehicle(2) [OF patch seg that] run_handler_def
        patch_vehicle_reject_def r)
  from a r ha hr show ?thesis by blast
qed

theorem unknown_vehicle_answers_200_witness:
  "handle_request 10 (vehicle_request ''admin'' ''v404'' ''approve'') sample_db
      = (sample_db, \<lparr>status = 200, body = None\<rparr>)
   \<and> handle_request 10 (vehicle_request ''admin'' ''v404'' ''reject'') sample_db
      = (sample_db, \<lparr>status = 200, body = None\<rparr>)
   \<and> map v_id (vehicles sample_db) = [''v1'']"
proof -
  have u: "''v404'' \<notin> v_id ` set (vehicles sample_db)" and ids: "map v_id (vehicles sample_db) = [''v1'']"
    by (simp_all add: sample_db_def sample_vehicle_def)
  have q: "authenticated_id (vehicle_request ''admin'' ''v404'' action) = Some ''admin''"
    "r_method (vehicle_request ''admin'' ''v404'' action) = PATCH"
    "r_path (vehicle_request ''admin'' ''v404'' action) = [''api'', ''vehicles'', ''v404'', action]"
    for action
    by (simp_all add: vehicle_request_def authenticated_id_def sample_user_def)
  have n: "''v404'' \<noteq> []" by simp
  from unknown_vehicle_answers_200 [OF u q(1,2) [of "''approve''"] n, where now = 10]
    unknown_vehicle_answers_200 [OF u q(1,2) [of "''reject''"] n, where now = 10] q(3) ids
  show ?thesis by simp
qed

section \<open>The ledger\<close>

lemma calls_of_Cons: "calls_of ((h, now) # hs) = (number_of_decimal h, now) # calls_of hs"
  by (simp add: calls_of_def)

lemma apply_deltas_row:
  assumes "fb (u, k) = Some r" and "totals_within (balance r) (map fst hs)"
  shows "\<exists>r'. apply_deltas us fb u k (calls_of hs) (u, k) = Some r' \<and>
              balance r' = balance r + sum_list (map fst hs)"
  using assms
proof (induction hs arbitrary: fb r)
  case Nil
  then show ?case by (simp add: calls_of_def)
next
  case (Cons p hs)
  obtain h now where p: "p = (h, now)" by (cases p)
  from Cons.prems(2) p have h: "in_range h" "in_range (balance r + h)"
    and rest: "totals_within (balance r + h) (map fst hs)" by simp_all
  let ?r = "r\<lparr>balance := balance r + h, updatedAt := now\<rparr>"
  let ?fb = "fb((u, k) \<mapsto> ?r)"
  from updateFuelBalance_add [of fb u k r h us now] Cons.prems(1) h
  have step: "apply_deltas us fb u k (calls_of (p # hs)) = apply_deltas us ?fb u k (calls_of hs)"
    by (simp add: p calls_of_Cons)
  have "?fb (u, k) = Some ?r" by simp
  moreover from rest have "totals_within (balance ?r) (map fst hs)" by simp
  ultimately obtain r' where "apply_deltas us ?fb u k (calls_of hs) (u, k) = Some r'"
    and "balance r' = balance ?r + sum_list (map fst hs)"
    using Cons.IH [of ?fb ?r] by blast
  with step p show ?case by simp
qed

lemma apply_deltas_missing:
  assumes "fb (u, k) = None" and "u \<in> set us" and "hs \<noteq> []"
    and "totals_within 0 (map fst hs)"
  shows "\<exists>r'. apply_deltas us fb u k (calls_of hs) (u, k) = Some r' \<and>
              balance r' = sum_list (map fst hs)"
proof (cases hs)
  case Nil
  with assms(3) show ?thesis by simp
next
  case (Cons p rest)
  obtain h now where p: "p = (h, now)" by (cases p)
  from assms(4) Cons p have h: "in_range h" and rest: "totals_within h (map fst rest)"
    by simp_all
  let ?r = "\<lparr>balance = h, updatedAt = now\<rparr>"
  let ?fb = "fb((u, k) \<mapsto> ?r)"
  from updateFuelBalance_insert [of fb u k us h now] assms(1,2) h
  have step: "apply_deltas us fb u k (calls_of hs) = apply_deltas us ?fb u k (calls_of rest)"
    by (simp add: Cons p calls_of_Cons)
  have "?fb (u, k) = Some ?r" by simp
  moreover from rest have "totals_within (balance ?r) (map fst rest)" by simp
  ultimately obtain r' where "apply_deltas us ?fb u k (calls_of rest) (u, k) = Some r'"
    and "balance r' = balance ?r + sum_list (map fst rest)"
    using apply_deltas_row [of ?fb u k ?r rest us] by blast
  with step Cons p show ?thesis by simp
qed

lemma sum_list_permuted:
  fixes hs :: "(decimal \<times> timestamp) list"
  assumes "mset hs' = mset hs"
  shows "sum_list (map fst hs') = sum_list (map fst hs)"
proof -
  have "sum_list (map fst hs') = sum_mset (mset (map fst hs'))"
    by (simp only: sum_mset_sum_list)
  also have "\<dots> = sum_mset (mset (map fst hs))"
    using assms by (simp only: mset_map)
  finally show ?thesis by (simp only: sum_mset_sum_list)
qed

lemma missing_row_as_zero:
  assumes "fb (u, k) = None" and "u \<in> set us"
  shows "updateFuelBalance us fb u k amt now =
         updateFuelBalance us (fb((u, k) \<mapsto> \<lparr>balance = 0, updatedAt = t\<rparr>)) u k amt now"
  using assms
  by (cases "numeric_10_2 amt") (simp_all add: updateFuelBalance_def number_of_decimal_def Let_def)

text \<open>
  C3, as the code has it. For a user that exists and a fuel kind without a balance row,
  after \<open>updateFuelBalance\<close> has been called with deltas \<open>d\<^sub>1, \<dots>, d\<^sub>n\<close> (\<open>n \<ge> 1\<close>) of at
  most two decimal places, in an order in which every delta and every running total
  fits the column, the stored balance is \<open>d\<^sub>1 + \<dots> + d\<^sub>n\<close>. Any call on the missing row has
  the result it has on a row created with balance 0 beforehand.
\<close>

theorem deltas_sum:
  assumes "u \<in> set us" and "getFuelBalance fb u k = None"
    and "mset hs' = mset hs" and "hs \<noteq> []" and "totals_within 0 (map fst hs')"
  shows "map_option balance (getFuelBalance (apply_deltas us fb u k (calls_of hs')) u k)
           = Some (sum_list (map fst hs))
       \<and> updateFuelBalance us fb u k amt now
           = updateFuelBalance us (fb((u, k) \<mapsto> \<lparr>balance = 0, updatedAt = t\<rparr>)) u k amt now"
proof -
  from assms(2) have none: "fb (u, k) = None" by (simp add: getFuelBalance_def)
  from assms(3,4) have "hs' \<noteq> []" by auto
  from apply_deltas_missing [of fb u k us hs'] none assms(1) this assms(5) obtain r'
    where "apply_deltas us fb u k (calls_of hs') (u, k) = Some r'"
      and "balance r' = sum_list (map fst hs')" by blast
  with sum_list_permuted [OF assms(3)]
  have "map_option balance (getFuelBalance (apply_deltas us fb u k (calls_of hs')) u k)
           = Some (sum_list (map fst hs))"
    by (simp add: getFuelBalance_def)
  with missing_row_as_zero [of fb u k us amt now t] none assms(1) show ?thesis by simp
qed

theorem deltas_sum_witness:
  "map_option balance
     (getFuelBalance (apply_deltas [''alice''] Map.empty ''alice'' ''petrol''
        (calls_of [(-300, 3), (1000, 1), (250, 2)])) ''alice'' ''petrol'') = Some 950
   \<and> map_option balance
     (getFuelBalance (apply_deltas [''alice''] Map.empty ''alice'' ''petrol''
        (calls_of [(1000, 1), (250, 2), (-300, 3)])) ''alice'' ''petrol'') = Some 950"
proof -
  have u: "''alice'' \<in> set [''alice'']" by simp
  have n: "getFuelBalance Map.empty ''alice'' ''petrol'' = None"
    by (simp add: getFuelBalance_def)
  have m: "mset [(-300, 3), (1000, 1), (250 :: decimal, 2 :: timestamp)]
         = mset [(1000, 1), (250, 2), (-300, 3)]"
    by simp
  have e: "[(1000, 1), (250 :: decimal, 2 :: timestamp), (-300, 3)] \<noteq> []" by simp
  have w: "totals_within 0 (map fst [(-300, 3), (1000, 1), (250 :: decimal, 2 :: timestamp)])"
    "totals_within 0 (map fst [(1000, 1), (250 :: decimal, 2 :: timestamp), (-300, 3)])"
    by (simp_all add: in_range_def)
  from deltas_sum [OF u n m e w(1)] deltas_sum [OF u n refl e w(2)]
  show ?thesis by simp
qed

text \<open>
  C3 as stated fails. The deltas 99999999.99, 0.01 and -1 leave 99999998.99 in that
  order, the second call being refused for numeric overflow, and their sum 99999999.00
  when -1 comes first. The deltas 0.005 and 0.005 leave 0.02, each store rounding to
  two places. For an id that no user has, the call is refused and no row appears.
\<close>

theorem deltas_beyond_column:
  "map_option balance
     (getFuelBalance (apply_deltas [''alice''] Map.empty ''alice'' ''petrol''
        [(9999999999 / 100, 1), (1 / 100, 2), (- 1, 3)]) ''alice'' ''petrol'') = Some 9999999899
   \<and> map_option balance
     (getFuelBalance (apply_deltas [''alice''] Map.empty ''alice'' ''petrol''
        [(- 1, 3), (9999999999 / 100, 1), (1 / 100, 2)]) ''alice'' ''petrol'') = Some 9999999900
   \<and> ((9999999999 / 100 + 1 / 100 + - 1) * 100 :: rat) = 9999999900
   \<and> map_option balance
     (getFuelBalance (apply_deltas [''alice''] Map.empty ''alice'' ''petrol''
        [(1 / 200, 1), (1 / 200, 2)]) ''alice'' ''petrol'') = Some 2
   \<and> ((1 / 200 + 1 / 200) * 100 :: rat) = 1
   \<and> map_option balance
     (getFuelBalance (apply_deltas [] Map.empty ''ghost'' ''petrol''
        [(10, 1)]) ''ghost'' ''petrol'') = None"
  by code_simp

section \<open>The balances route\<close>

lemma pg_numeric_text_not_empty: "pg_numeric_text d \<noteq> []"
  by (simp add: pg_numeric_text_def Let_def)

lemma pg_numeric_text_zero: "pg_numeric_text 0 = ''0.00''"
  by code_simp

lemma balance_or_default_eq:
  "balance_or_default (getFuelBalance fb u k) = pg_numeric_text (balance_of fb u k)"
  by (simp add: balance_or_default_def balance_of_def js_or_def pg_numeric_text_not_empty
      pg_numeric_text_zero split: option.splits)

lemma insert_zero_balances_known:
  assumes "u \<in> set us"
  shows "insert_zero_balances us fb u now fts =
     (\<lambda>key. if fst key = u \<and> snd key \<in> set fts \<and> fb key = None
             then Some \<lparr>balance = 0, updatedAt = now\<rparr> else fb key, None)"
proof (induction fts arbitrary: fb)
  case Nil
  then show ?case by simp
next
  case (Cons ft fts)
  show ?case
  proof (cases "fb (u, ft)")
    case None
    have "(\<lambda>key. if fst key = u \<and> snd key \<in> set fts \<and>
                     (fb((u, ft) \<mapsto> \<lparr>balance = 0, updatedAt = now\<rparr>)) key = None
                  then Some \<lparr>balance = 0, updatedAt = now\<rparr>
                  else (fb((u, ft) \<mapsto> \<lparr>balance = 0, updatedAt = now\<rparr>)) key)
        = (\<lambda>key. if fst key = u \<and> snd key \<in> set (ft # fts) \<and> fb key = None
                  then Some \<lparr>balance = 0, updatedAt = now\<rparr> else fb key)"
      using None by (auto simp: fun_eq_iff)
    then have eq: "(\<lambda>key. if fst key = u \<and> snd key \<in> set fts \<and>
                     (fb((u, ft) \<mapsto> \<lparr>balance = 0, updatedAt = now\<rparr>)) key = None
                  then Some \<lparr>balance = 0, updatedAt = now\<rparr>
                  else (fb((u, ft) \<mapsto> \<lparr>balance = 0, updatedAt = now\<rparr>)) key, None :: js_error option)
        = (\<lambda>key. if fst key = u \<and> snd key \<in> set (ft # fts) \<and> fb key = None
                  then Some \<lparr>balance = 0, updatedAt = now\<rparr> else fb key, None)"
      by (simp only:)
    from None assms have "insert_zero_balances us fb u now (ft # fts)
        = insert_zero_balances us (fb((u, ft) \<mapsto> \<lparr>balance = 0, updatedAt = now\<rparr>)) u now fts"
      by simp
    also note Cons.IH [of "fb((u, ft) \<mapsto> \<lparr>balance = 0, updatedAt = now\<rparr>)"]
    also note eq
    finally show ?thesis .
  next
    case (Some row)
    have "(\<lambda>key. if fst key = u \<and> snd key \<in> set fts \<and> fb key = None
                  then Some \<lparr>balance = 0, updatedAt = now\<rparr> else fb key)
        = (\<lambda>key. if fst key = u \<and> snd key \<in> set (ft # fts) \<and> fb key = None
                  then Some \<lparr>balance = 0, updatedAt = now\<rparr> else fb key)"
      using Some by (auto simp: fun_eq_iff)
    then have eq: "(\<lambda>key. if fst key = u \<and> snd key \<in> set fts \<and> fb key = None
                  then Some \<lparr>balance = 0, updatedAt = now\<rparr> else fb key, None :: js_error option)
        = (\<lambda>key. if fst key = u \<and> snd key \<in> set (ft # fts) \<and> fb key = None
                  then Some \<lparr>balance = 0, updatedAt = now\<rparr> else fb key, None)"
      by (simp only:)
    from Some have "insert_zero_balances us fb u now (ft # fts)
        = insert_zero_balances us fb u now fts"
      by simp
    also note Cons.IH [of fb]
    also note eq
    finally show ?thesis .
  qed
qed

lemma insert_zero_balances_unknown:
  assumes "u \<notin> set us"
  shows "insert_zero_balances us fb u now fts =
     (fb, if list_ex (\<lambda>ft. fb (u, ft) = None) fts
          then Some (DatabaseError
                 (ForeignKeyViolation ''fuel_balances'' ''fuel_balances_user_id_users_id_fk''))
          else None)"
  using assms by (induction fts) (auto split: option.splits)

lemma find_route_fuel_balances:
  assumes "r_method req = GET" and "r_path req = [''api'', ''fuel-balances'']"
  shows "find_route registerRoutes req = Some (FuelBalancesFirst, [])"
  using assms by (simp add: registerRoutes_def)

lemma handle_fuel_balances:
  assumes "r_method req = GET" and "r_path req = [''api'', ''fuel-balances'']"
  shows "handle_request now req d = get_fuel_balances_first now req d"
  by (simp add: handle_request_def find_route_fuel_balances [OF assms] run_handler_def)

text \<open>
  C2, as the code has it. An authenticated \<^verbatim>\<open>GET /api/fuel-balances\<close> is answered by the
  first handler registered for the path. For a user that exists, the missing balance
  rows for petrol and diesel are created with balance 0, the other rows stay, and the
  answer is 200 with a JSON array of two entries, \<^verbatim>\<open>{fuelType: "petrol", balance}\<close> and
  \<^verbatim>\<open>{fuelType: "diesel", balance}\<close>, each balance the text of what the user held, \<^verbatim>\<open>0.00\<close>
  where there was no row. For an id that no user has and that lacks one of the two rows,
  the insert is refused, nothing changes and the answer is 500 with the error
  \<^verbatim>\<open>Failed to get fuel balances\<close>.
\<close>

theorem fuel_balances_response:
  assumes "r_method req = GET" and "r_path req = [''api'', ''fuel-balances'']"
    and "authenticated_id req = Some userId"
  shows "(userId \<in> set (users d) \<longrightarrow>
           handle_request now req d =
             (d\<lparr>fuel_balances :=
                  (\<lambda>key. if fst key = userId \<and> snd key \<in> set [''petrol'', ''diesel''] \<and>
                              fuel_balances d key = None
                           then Some \<lparr>balance = 0, updatedAt = now\<rparr>
                           else fuel_balances d key)\<rparr>,
              \<lparr>status = 200,
               body = Some (JArray
                 [JObject [(''fuelType'', JString ''petrol''),
                           (''balance'', JString (pg_numeric_text
                              (balance_of (fuel_balances d) userId ''petrol'')))],
                  JObject [(''fuelType'', JString ''diesel''),
                           (''balance'', JString (pg_numeric_text
                              (balance_of (fuel_balances d) userId ''diesel'')))]])\<rparr>))
       \<and> (userId \<notin> set (users d) \<and>
          (getFuelBalance (fuel_balances d) userId ''petrol'' = None \<or>
           getFuelBalance (fuel_balances d) userId ''diesel'' = None) \<longrightarrow>
           handle_request now req d =
             (d, \<lparr>status = 500, body = Some (error_json ''Failed to get fuel balances'')\<rparr>))"
proof -
  have known: "handle_request now req d =
             (d\<lparr>fuel_balances :=
                  (\<lambda>key. if fst key = userId \<and> snd key \<in> set [''petrol'', ''diesel''] \<and>
                              fuel_balances d key = None
                           then Some \<lparr>balance = 0, updatedAt = now\<rparr>
                           else fuel_balances d key)\<rparr>,
              \<lparr>status = 200,
               body = Some (JArray
                 [JObject [(''fuelType'', JString ''petrol''),
                           (''balance'', JString (pg_numeric_text
                              (balance_of (fuel_balances d) userId ''petrol'')))],
                  JObject [(''fuelType'', JString ''diesel''),
                           (''balance'', JString (pg_numeric_text
                              (balance_of (fuel_balances d) userId ''diesel'')))]])\<rparr>)"
    if u: "userId \<in> set (users d)"
  proof -
    define fb where "fb = (\<lambda>key. if fst key = userId \<and> snd key \<in> set [''petrol'', ''diesel''] \<and>
                              fuel_balances d key = None
                           then Some \<lparr>balance = 0, updatedAt = now\<rparr>
                           else fuel_balances d key)"
    have init: "initializeFuelBalances (users d) (fuel_balances d) userId now = (fb, None)"
      unfolding initializeFuelBalances_def fb_def by (rule insert_zero_balances_known [OF u])
    have bal: "balance_of fb userId k = balance_of (fuel_balances d) userId k" for k
      by (simp add: fb_def balance_of_def getFuelBalance_def split: option.splits)
    have "get_fuel_balances_first now req d =
       (d\<lparr>fuel_balances := fb\<rparr>,
        \<lparr>status = 200,
         body = Some (JArray
           [JObject [(''fuelType'', JString ''petrol''),
                     (''balance'', JString (pg_numeric_text (balance_of fb userId ''petrol'')))],
            JObject [(''fuelType'', JString ''diesel''),
                     (''balance'', JString (pg_numeric_text (balance_of fb userId ''diesel'')))]])\<rparr>)"
      using assms(3) by (simp add: get_fuel_balances_first_def init balance_or_default_eq)
    then show ?thesis
      unfolding handle_fuel_balances [OF assms(1,2)] bal unfolding fb_def .
  qed
  have unknown: "handle_request now req d =
             (d, \<lparr>status = 500, body = Some (error_json ''Failed to get fuel balances'')\<rparr>)"
    if "userId \<notin> set (users d) \<and>
          (getFuelBalance (fuel_balances d) userId ''petrol'' = None \<or>
           getFuelBalance (fuel_balances d) userId ''diesel'' = None)"
  proof -
    from that have u: "userId \<notin> set (users d)"
      and m: "list_ex (\<lambda>ft. fuel_balances d (userId, ft) = None) [''petrol'', ''diesel'']"
      by (auto simp: getFuelBalance_def)
    have init: "initializeFuelBalances (users d) (fuel_balances d) userId now =
          (fuel_balances d, Some (DatabaseError
                 (ForeignKeyViolation ''fuel_balances'' ''fuel_balances_user_id_users_id_fk'')))"
      unfolding initializeFuelBalances_def
      by (simp only: insert_zero_balances_unknown [OF u] m if_True)
    show ?thesis
      unfolding handle_fuel_balances [OF assms(1,2)]
      using assms(3) by (simp add: get_fuel_balances_first_def init server_error_def)
  qed
  from known unknown show ?thesis by blast
qed

lemma sample_balances_request:
  "r_method (balances_request u) = GET" "r_path (balances_request u) = [''api'', ''fuel-balances'']"
  "authenticated_id (balances_request ''alice'') = Some ''alice''"
  "authenticated_id (balances_request ''ghost'') = Some ''ghost''"
  by (simp_all add: balances_request_def authenticated_id_def sample_user_def)

theorem fuel_balances_response_witness:
  "handle_request 10 (balances_request ''alice'') stocked_db =
     (stocked_db\<lparr>fuel_balances :=
        [(''alice'', ''petrol'') \<mapsto> \<lparr>balance = 1250, updatedAt = 2\<rparr>,
         (''alice'', ''diesel'') \<mapsto> \<lparr>balance = 0, updatedAt = 10\<rparr>]\<rparr>,
      \<lparr>status = 200,
       body = Some (JArray
        [JObject [(''fuelType'', JString ''petrol''), (''balance'', JString ''12.50'')],
         JObject [(''fuelType'', JString ''diesel''), (''balance'', JString ''0.00'')]])\<rparr>)
   \<and> handle_request 10 (balances_request ''ghost'') stocked_db =
     (stocked_db, \<lparr>status = 500, body = Some (error_json ''Failed to get fuel balances'')\<rparr>)"
proof -
  have u: "''alice'' \<in> set (users stocked_db)" "''ghost'' \<notin> set (users stocked_db)"
    "getFuelBalance (fuel_balances stocked_db) ''ghost'' ''petrol'' = None"
    by (simp_all add: sample_tables getFuelBalance_def)
  have b: "balance_of (fuel_balances stocked_db) ''alice'' ''petrol'' = 1250"
    "balance_of (fuel_balances stocked_db) ''alice'' ''diesel'' = 0"
    by (simp_all add: balance_of_def getFuelBalance_def sample_tables)
  have t: "pg_numeric_text 1250 = ''12.50''" by code_simp
  have fb: "(\<lambda>key. if fst key = ''alice'' \<and> (snd key = ''petrol'' \<or> snd key = ''diesel'') \<and>
                              fuel_balances stocked_db key = None
                           then Some \<lparr>balance = 0, updatedAt = 10\<rparr>
                           else fuel_balances stocked_db key)
      = [(''alice'', ''petrol'') \<mapsto> \<lparr>balance = 1250, updatedAt = 2\<rparr>,
         (''alice'', ''diesel'') \<mapsto> \<lparr>balance = 0, updatedAt = 10\<rparr>]"
    by (auto simp: fun_eq_iff sample_tables)
  from fuel_balances_response [OF sample_balances_request(1,2,3), of stocked_db 10]
    fuel_balances_response [OF sample_balances_request(1,2,4), of stocked_db 10] u
  show ?thesis by (simp add: b t fb pg_numeric_text_zero)
qed

text \<open>
  C2 as stated fails: the answer to the sample request is the array, which is not of
  the shape \<^verbatim>\<open>{petrol, diesel}\<close>; the handler that builds that shape is the second one
  registered for the path, and dispatch never reaches it.
\<close>

theorem fuel_balances_not_object:
  "body (snd (handle_request 10 (balances_request ''alice'') sample_db)) =
     Some (JArray
        [JObject [(''fuelType'', JString ''petrol''), (''balance'', JString ''0.00'')],
         JObject [(''fuelType'', JString ''diesel''), (''balance'', JString ''0.00'')]])
   \<and> \<not> is_balances_object (the (body (snd (handle_request 10 (balances_request ''alice'') sample_db))))
   \<and> is_balances_object (the (body (snd (get_fuel_balances_second 10 (balances_request ''alice'') sample_db))))"
proof -
  have init: "initializeFuelBalances [''alice'', ''bob'', ''admin'', ''admin2''] Map.empty ''alice'' 10 =
      (\<lambda>key. if fst key = ''alice'' \<and> (snd key = ''petrol'' \<or> snd key = ''diesel'')
               then Some \<lparr>balance = 0, updatedAt = 10\<rparr> else None, None)"
    using insert_zero_balances_known [of "''alice''" "[''alice'', ''bob'', ''admin'', ''admin2'']"
        Map.empty 10 "[''petrol'', ''diesel'']"]
    by (simp add: initializeFuelBalances_def)
  have a: "body (snd (handle_request 10 (balances_request ''alice'') sample_db)) =
     Some (JArray
        [JObject [(''fuelType'', JString ''petrol''), (''balance'', JString ''0.00'')],
         JObject [(''fuelType'', JString ''diesel''), (''balance'', JString ''0.00'')]])"
    unfolding handle_fuel_balances [OF sample_balances_request(1,2)]
    by (simp add: get_fuel_balances_first_def sample_balances_request init getFuelBalance_def
        sample_tables balance_or_default_def js_or_def pg_numeric_text_zero)
  have b: "is_balances_object (the (body (snd (get_fuel_balances_second 10 (balances_request ''alice'') sample_db))))"
    by (simp add: get_fuel_balances_second_def sample_balances_request Let_def is_balances_object_def)
  from a b show ?thesis by (simp add: is_balances_object_def)
qed

end
